theory Spec2Isabelle
  imports Complex_Main
begin

section \<open>JavaScript numbers and strings\<close>

text \<open>
  A JavaScript number is an IEEE 754 double. The finite doubles are modelled as the real
  numbers they denote, and every product, quotient and sum that the code computes is
  rounded to the nearest double, a tie going to the even significand, as the hardware
  does. \<open>NaN\<close>, the infinities and the sign of zero are left out: the modelled code
  computes with counts, 32-bit database integers and quantities derived from them, which
  stay finite, and every division of the modelled code has a divisor other than 0.
  Counts (array lengths) are \<open>nat\<close>, database integers are \<open>int\<close>; both are doubles
  without rounding.
\<close>

definition round_half_even :: "real \<Rightarrow> int" where
  "round_half_even r =
     (let f = \<lfloor>r\<rfloor>; d = r - of_int f
      in if d < 1 / 2 then f else if 1 / 2 < d then f + 1 else if even f then f else f + 1)"

text \<open>
  The binary exponent \<open>e\<close> of a positive number, \<open>2^e \<le> x < 2^(e+1)\<close>, found by
  halving or doubling at most \<open>n\<close> times.
\<close>

fun binary_exponent :: "nat \<Rightarrow> real \<Rightarrow> int \<Rightarrow> int" where
  "binary_exponent 0 x e = e"
| "binary_exponent (Suc n) x e =
     (if 2 \<le> x then binary_exponent n (x / 2) (e + 1)
      else if x < 1 then binary_exponent n (x * 2) (e - 1)
      else e)"

definition pow2 :: "int \<Rightarrow> real" where
  "pow2 k = (if 0 \<le> k then 2 ^ nat k else 1 / 2 ^ nat (- k))"

text \<open>
  Rounding to a double: 53 significant bits, and below \<open>2^(-1022)\<close> the fixed spacing
  \<open>2^(-1074)\<close> of the subnormal numbers. (From \<open>2^1024\<close> on the code has \<open>Infinity\<close>;
  no quantity of the modelled code gets there.)
\<close>

definition fl :: "real \<Rightarrow> real" where
  "fl x =
     (if x = 0 then 0
      else (let a = \<bar>x\<bar>;
                e = max (binary_exponent 1100 a 0) (- 1022);
                q = pow2 (e - 52)
            in sgn x * (real_of_int (round_half_even (a / q)) * q)))"

text \<open>The operators \<open>*\<close>, \<open>/\<close> and \<open>+\<close> on numbers.\<close>

definition dmul :: "real \<Rightarrow> real \<Rightarrow> real" where
  "dmul a b = fl (a * b)"

definition ddiv :: "real \<Rightarrow> real \<Rightarrow> real" where
  "ddiv a b = fl (a / b)"

definition dadd :: "real \<Rightarrow> real \<Rightarrow> real" where
  "dadd a b = fl (a + b)"

text \<open>
  \<open>Math.round\<close> gives the integer nearest to the value of its argument, a tie going up.
\<close>

definition Math_round :: "real \<Rightarrow> int" where
  "Math_round x = \<lfloor>x + 1 / 2\<rfloor>"

definition digit_char :: "nat \<Rightarrow> char" where
  "digit_char n = ''0123456789'' ! (n mod 10)"

text \<open>The decimal digits of a non-negative integer, as template interpolation prints them.\<close>

function nat_to_string :: "nat \<Rightarrow> string" where
  "nat_to_string n =
     (if n < 10 then [digit_char n] else nat_to_string (n div 10) @ [digit_char (n mod 10)])"
  by pat_completeness auto
termination
  by (relation "measure id") auto

text \<open>
  \<open>x.toFixed(1)\<close>: the sign, then the integer \<open>n\<close> for which \<open>n / 10\<close> is nearest to
  the value of the double \<open>|x|\<close> (the larger one at a tie), printed with one digit after
  the point. (From \<open>10^21\<close> on JavaScript prints the exponent form instead.)
\<close>

definition toFixed1 :: "real \<Rightarrow> string" where
  "toFixed1 x =
     (let n = nat \<lfloor>\<bar>x\<bar> * 10 + 1 / 2\<rfloor>
      in (if x < 0 then ''-'' else '''') @ nat_to_string (n div 10) @ ''.'' @ [digit_char (n mod 10)])"

subsection \<open>Objects used as counters\<close>

text \<open>
  A \<open>Record<string, number>\<close> filled by \<open>obj[k] = (obj[k] || 0) + v\<close> is an association
  list in the order in which the keys were first written. Writing a number to the key
  \<open>__proto__\<close> creates no property. (A label that names another property inherited from
  \<open>Object.prototype\<close>, such as \<open>constructor\<close>, would read a function where a number is
  expected; such labels are outside the model.)
\<close>

fun count_key :: "string \<Rightarrow> (string \<times> nat) list \<Rightarrow> (string \<times> nat) list" where
  "count_key k [] = (if k = ''__proto__'' then [] else [(k, 1)])"
| "count_key k ((k', c) # m) = (if k = k' then (k', c + 1) # m else (k', c) # count_key k m)"

fun add_key :: "string \<Rightarrow> real \<Rightarrow> (string \<times> real) list \<Rightarrow> (string \<times> real) list" where
  "add_key k h [] = (if k = ''__proto__'' then [] else [(k, h)])"
| "add_key k h ((k', c) # m) =
     (if k = k' then (k', dadd c h) # m else (k', c) # add_key k h m)"

text \<open>
  \<open>Object.entries\<close> lists the keys that are array indices (canonical decimal numerals
  below \<open>2^32 - 1\<close>) first, in ascending numeric order, and then the other keys in the
  order of their creation.
\<close>

definition numeral_value :: "string \<Rightarrow> int" where
  "numeral_value s = foldl (\<lambda>n c. 10 * n + (of_char c - 48)) 0 s"

definition is_array_index :: "string \<Rightarrow> bool" where
  "is_array_index k =
     (k \<noteq> [] \<and> list_all (\<lambda>c. 48 \<le> (of_char c :: int) \<and> (of_char c :: int) \<le> 57) k
      \<and> (k = ''0'' \<or> take 1 k \<noteq> ''0'') \<and> numeral_value k < 4294967295)"

definition entries :: "(string \<times> 'v) list \<Rightarrow> (string \<times> 'v) list" where
  "entries m =
     sort_key (\<lambda>e. numeral_value (fst e)) (filter (\<lambda>e. is_array_index (fst e)) m)
     @ filter (\<lambda>e. \<not> is_array_index (fst e)) m"

text \<open>\<open>list.sort((a, b) => b.v - a.v)\<close>: descending by the value \<open>v\<close>, stable.\<close>

definition sort_desc :: "('a \<Rightarrow> 'k::{linorder,uminus}) \<Rightarrow> 'a list \<Rightarrow> 'a list" where
  "sort_desc v xs = sort_key (\<lambda>x. - v x) xs"

section \<open>The end-of-day summary (\<open>useEndOfDaySummary.ts\<close>)\<close>

datatype DayState =
  motivated | tired_but_consistent | stressed | proud
  | discouraged | balanced | recovering | strong_start

text \<open>
  \<open>DayData\<close> is \<open>Omit<DaySummary, 'message' | 'closingLine' | 'state'>\<close>, the feature
  tuple; \<open>Narrative\<close> is the object \<open>generateMessage\<close> returns; \<open>DaySummary\<close> is the
  spread of both.
\<close>

record DayData =
  studyHours :: real
  goalHours :: real
  completedSessions :: nat
  totalSessions :: nat
  dominantEmotion :: "string option"
  avgFocus :: real
  avgStress :: real
  emotionCount :: nat

record Narrative =
  state :: DayState
  message :: string
  closingLine :: string

record DaySummary = DayData +
  narrative :: Narrative

text \<open>
  The closing lines end in an emoji; a character beyond ASCII is written as its UTF-8
  bytes. The literal 0.5 is a double as it stands; 0.8, 0.6 and 0.3 are rounded.
\<close>

definition generateMessage :: "DayData \<Rightarrow> Narrative" where
  \<open>generateMessage data =
     (let completionRate =
            (if totalSessions data > 0
             then ddiv (real (completedSessions data)) (real (totalSessions data)) else 0);
          goalReached =
            (if goalHours data > 0 then studyHours data \<ge> dmul (goalHours data) (fl 0.8)
             else studyHours data > 0);
          isStressed = (avgStress data \<ge> 7);
          isFocused = (avgFocus data \<ge> 6);
          hasEmotionData = (emotionCount data > 0)
      in
        if isStressed \<and> completionRate < 0.5 then
          \<lparr>state = stressed,
           message = ''Today felt heavy, and that's okay. You showed up despite the stress, and that takes real courage. ''
             @ (if studyHours data > 0
                then ''You still put in '' @ toFixed1 (studyHours data) @ '' hours of effort.''
                else ''Sometimes rest is the most productive choice.''),
           closingLine = ''Tomorrow is a fresh start. Be gentle with yourself tonight. ''
             @ [CHR 0xF0, CHR 0x9F, CHR 0x8C, CHR 0x99]\<rparr>
        else if completionRate \<ge> fl 0.8 \<and> goalReached then
          \<lparr>state = proud,
           message = ''What an amazing day! You completed '' @ nat_to_string (completedSessions data)
             @ '' of '' @ nat_to_string (totalSessions data) @ '' sessions and studied for ''
             @ toFixed1 (studyHours data) @ '' hours. Your dedication really shows.'',
           closingLine = ''You should feel proud of yourself. Rest well, champion! ''
             @ [CHR 0xE2, CHR 0xAD, CHR 0x90]\<rparr>
        else if completionRate \<ge> fl 0.6 \<and> isFocused then
          \<lparr>state = motivated,
           message = ''Great focus today! You maintained strong concentration throughout your ''
             @ toFixed1 (studyHours data) @ '' hours of study. ''
             @ (if completedSessions data > 0
                then ''Completed '' @ nat_to_string (completedSessions data) @ '' sessions with purpose.''
                else ''''),
           closingLine = ''Keep this momentum going! You're on a great path. ''
             @ [CHR 0xF0, CHR 0x9F, CHR 0x9A, CHR 0x80]\<rparr>
        else if studyHours data > 0 \<and> completionRate < 0.5 \<and> \<not> isStressed then
          \<lparr>state = tired_but_consistent,
           message = ''You might not have hit every goal today, but you showed up. ''
             @ toFixed1 (studyHours data)
             @ '' hours of effort is still progress. Consistency matters more than perfection.'',
           closingLine = ''Every step forward counts. Sleep well and recharge. ''
             @ [CHR 0xF0, CHR 0x9F, CHR 0x92, CHR 0xAA]\<rparr>
        else if studyHours data = 0 \<and> hasEmotionData then
          \<lparr>state = recovering,
           message = ''Today was a rest day, and that's perfectly valid. Your emotions tell a story, and sometimes we need to pause. ''
             @ (case dominantEmotion data of
                  None \<Rightarrow> ''''
                | Some e \<Rightarrow>
                    if e = '''' then ''''
                    else ''Feeling "'' @ e @ ''" is part of your journey.''),
           closingLine = ''Rest is part of growth. Tomorrow awaits with new energy. ''
             @ [CHR 0xF0, CHR 0x9F, CHR 0x8C, CHR 0xB1]\<rparr>
        else if completionRate < fl 0.3 \<and> goalHours data > 0 then
          \<lparr>state = discouraged,
           message = ''Today didn't go as planned, but setbacks don't define you. You're still here, still trying. That resilience is what matters most.'',
           closingLine = ''One tough day doesn't erase your progress. You've got this. ''
             @ [CHR 0xF0, CHR 0x9F, CHR 0x92, CHR 0x9C]\<rparr>
        else if studyHours data > 0 \<and> \<not> hasEmotionData then
          \<lparr>state = strong_start,
           message = ''You put in '' @ toFixed1 (studyHours data) @ '' hours of study today. ''
             @ (if completedSessions data > 0
                then ''Completed '' @ nat_to_string (completedSessions data) @ '' sessions.''
                else '''')
             @ '' Nice work showing up for yourself!'',
           closingLine = ''Keep building those habits! You're doing great. ''
             @ [CHR 0xE2, CHR 0x9C, CHR 0xA8]\<rparr>
        else
          \<lparr>state = balanced,
           message = ''Today was a balanced day. ''
             @ (if studyHours data > 0
                then ''You studied for '' @ toFixed1 (studyHours data) @ '' hours''
                else ''You took time for yourself'')
             @ (if hasEmotionData then '' and checked in with your feelings'' else '''')
             @ ''. That's healthy progress.'',
           closingLine = ''Balance is the key to long-term success. Well done! ''
             @ [CHR 0xF0, CHR 0x9F, CHR 0x8C, CHR 0x9F]\<rparr>)\<close>

subsection \<open>Rows read from the backend\<close>

text \<open>
  Only the columns the hooks read. \<open>created_day\<close> stands for
  \<open>new Date(row.created_at).getDay()\<close>, the day of the week from 0 (Sunday) to 6.
  The active schedule's \<open>weekly_plan\<close> is a JSON column that the code casts to an array
  of days; a missing value (\<open>null\<close> or \<open>undefined\<close>) is \<open>None\<close>. The sums of the
  integer columns are exact (they stay far below \<open>2^53\<close>).
\<close>

record StudySession =
  duration_seconds :: "int option"
  created_day :: nat

record EmotionLog =
  emotion :: string
  mood :: "string option"
  focus_level :: "int option"
  stress_level :: "int option"
  logged_day :: nat

record Completion =
  status :: string
  subject :: string
  completion_seconds :: int

record PlanSession =
  duration :: "real option"

record PlanDay =
  day :: "string option"
  sessions :: "PlanSession list option"

record Schedule =
  weekly_plan :: "PlanDay list option"

datatype js_error = TypeError

text \<open>\<open>String.prototype.toLowerCase\<close> on the ASCII letters.\<close>

definition lower_char :: "char \<Rightarrow> char" where
  "lower_char c =
     (let n = (of_char c :: nat) in if 65 \<le> n \<and> n \<le> 90 then char_of (n + 32) else c)"

definition toLowerCase :: "string \<Rightarrow> string" where
  "toLowerCase s = map lower_char s"

text \<open>
  \<open>weeklyPlan.find((d) => d.day.toLowerCase() === todayName.toLowerCase())\<close>: the first
  day with that name; a day without a name met on the way raises a \<open>TypeError\<close>.
\<close>

fun find_today :: "PlanDay list \<Rightarrow> string \<Rightarrow> js_error + PlanDay option" where
  "find_today [] todayName = Inr None"
| "find_today (d # ds) todayName =
     (case day d of
        None \<Rightarrow> Inl TypeError
      | Some n \<Rightarrow>
          if toLowerCase n = toLowerCase todayName then Inr (Some d)
          else find_today ds todayName)"

subsection \<open>\<open>fetchDaySummary\<close>\<close>

record DayFetch =
  sessions_today :: "StudySession list option"
  emotions_today :: "EmotionLog list option"
  completions_today :: "Completion list option"
  active_schedule :: "Schedule option"
  todayName :: string

text \<open>The accumulators of the \<open>forEach\<close> over the day's emotion logs.\<close>

record EmotionAcc =
  emotionCounts :: "(string \<times> nat) list"
  focusSum :: int
  focusCount :: nat
  stressSum :: int
  stressCount :: nat

definition emotion_step :: "EmotionAcc \<Rightarrow> EmotionLog \<Rightarrow> EmotionAcc" where
  "emotion_step a e =
     (let a1 = a\<lparr>emotionCounts := count_key (emotion e) (emotionCounts a)\<rparr>;
          a2 = (case focus_level e of
                  None \<Rightarrow> a1
                | Some f \<Rightarrow>
                    if f = 0 then a1
                    else a1\<lparr>focusSum := focusSum a1 + f, focusCount := focusCount a1 + 1\<rparr>)
      in (case stress_level e of
            None \<Rightarrow> a2
          | Some t \<Rightarrow>
              if t = 0 then a2
              else a2\<lparr>stressSum := stressSum a2 + t, stressCount := stressCount a2 + 1\<rparr>))"

definition or_empty :: "'a list option \<Rightarrow> 'a list" where
  "or_empty r = (case r of None \<Rightarrow> [] | Some xs \<Rightarrow> xs)"

definition or_zero :: "int option \<Rightarrow> int" where
  "or_zero v = (case v of None \<Rightarrow> 0 | Some n \<Rightarrow> n)"

text \<open>
  The body of the \<open>try\<close> block up to \<open>baseData\<close>: the feature tuple, or the exception
  that the \<open>catch\<close> turns into \<open>null\<close>.
\<close>

definition baseData :: "DayFetch \<Rightarrow> js_error + DayData" where
  "baseData f =
     (let studyHours =
            ddiv (real_of_int (sum_list (map (\<lambda>s. or_zero (duration_seconds s))
                                             (or_empty (sessions_today f))))) 3600;
          goal =
            (case active_schedule f of
               None \<Rightarrow> Inr (0, 0)
             | Some schedule \<Rightarrow>
                 (case weekly_plan schedule of
                    None \<Rightarrow> Inr (0, 0)
                  | Some weeklyPlan \<Rightarrow>
                      (case find_today weeklyPlan (todayName f) of
                         Inl err \<Rightarrow> Inl err
                       | Inr None \<Rightarrow> Inr (0, 0)
                       | Inr (Some todayPlan) \<Rightarrow>
                           (case sessions todayPlan of
                              None \<Rightarrow> Inr (0, 0)
                            | Some ss \<Rightarrow>
                                Inr (ddiv (foldl (\<lambda>sum s. dadd sum (case duration s of
                                                                    None \<Rightarrow> 0 | Some m \<Rightarrow> m))
                                                 0 ss) 60,
                                     length ss)))));
          completedSessions =
            length (filter (\<lambda>c. status c = ''completed'') (or_empty (completions_today f)));
          emotionsList = or_empty (emotions_today f);
          acc = foldl emotion_step
                  \<lparr>emotionCounts = [], focusSum = 0, focusCount = 0,
                   stressSum = 0, stressCount = 0\<rparr> emotionsList;
          dominantEmotion =
            (case sort_desc snd (entries (emotionCounts acc)) of
               [] \<Rightarrow> None
             | (name, _) # _ \<Rightarrow> if name = '''' then None else Some name);
          avgFocus =
            (if focusCount acc > 0
             then ddiv (real_of_int (focusSum acc)) (real (focusCount acc)) else 5);
          avgStress =
            (if stressCount acc > 0
             then ddiv (real_of_int (stressSum acc)) (real (stressCount acc)) else 3)
      in case goal of
           Inl err \<Rightarrow> Inl err
         | Inr (goalHours', totalSessions') \<Rightarrow>
             Inr \<lparr>studyHours = studyHours, goalHours = goalHours',
                  completedSessions = completedSessions, totalSessions = totalSessions',
                  dominantEmotion = dominantEmotion, avgFocus = avgFocus,
                  avgStress = avgStress, emotionCount = length emotionsList\<rparr>)"

text \<open>\<open>fetchDaySummary\<close>: \<open>null\<close> without a user or after an exception.\<close>

definition fetchDaySummary :: "bool \<Rightarrow> DayFetch \<Rightarrow> DaySummary option" where
  "fetchDaySummary user f =
     (if \<not> user then None
      else case baseData f of
             Inl err \<Rightarrow> None
           | Inr b \<Rightarrow> Some (DayData.extend b \<lparr>narrative = generateMessage b\<rparr>))"

subsection \<open>The trigger policy around the classifier\<close>

text \<open>
  The two triggers are \<open>async\<close> functions: each tests its guards, awaits backend calls
  and only then acts, without testing the guards again. An evaluation that has passed
  its guards and waits for an awaited call is a pending evaluation; the all-sessions
  trigger carries the date it read before its first \<open>await\<close>.
\<close>

datatype Pending =
  AwaitSummary
  | AwaitAllComplete string
  | AwaitCompleteSummary string

text \<open>
  The state of the hook: the two \<open>useState\<close> cells and the \<open>useRef\<close> flag of the mounted
  instance, the browser's \<open>localStorage\<close>, which outlives the instance, and the pending
  evaluations.
\<close>

record HookState =
  summary :: "DaySummary option"
  showPopup :: bool
  hasTriggeredRef :: bool
  localStorage :: "string \<rightharpoonup> string"
  pending :: "Pending list"

definition SUMMARY_STORAGE_KEY :: string where
  "SUMMARY_STORAGE_KEY = ''mindsync_last_summary_date''"

definition ALL_SESSIONS_COMPLETE_KEY :: string where
  "ALL_SESSIONS_COMPLETE_KEY = ''mindsync_sessions_complete_shown''"

text \<open>
  \<open>triggerOnAllSessionsComplete\<close> in its three parts: up to
  \<open>await checkAllSessionsComplete()\<close>, from there to \<open>await fetchDaySummary()\<close>, and the
  rest. \<open>today\<close> is \<open>new Date().toISOString().split("T")[0]\<close>, the UTC date, read in
  the first part.
\<close>

definition triggerOnAllSessionsComplete :: "string \<Rightarrow> HookState \<Rightarrow> HookState" where
  "triggerOnAllSessionsComplete today s =
     (if hasTriggeredRef s then s
      else if localStorage s ALL_SESSIONS_COMPLETE_KEY = Some today then s
      else s\<lparr>pending := pending s @ [AwaitAllComplete today]\<rparr>)"

definition trigger_checked :: "string \<Rightarrow> bool \<Rightarrow> Pending list" where
  "trigger_checked today allComplete =
     (if allComplete then [AwaitCompleteSummary today] else [])"

definition trigger_fetched :: "string \<Rightarrow> DaySummary option \<Rightarrow> HookState \<Rightarrow> HookState" where
  "trigger_fetched today summaryData s =
     (case summaryData of
        None \<Rightarrow> s
      | Some d \<Rightarrow>
          s\<lparr>hasTriggeredRef := True, summary := Some d, showPopup := True,
            localStorage := (localStorage s)(ALL_SESSIONS_COMPLETE_KEY \<mapsto> today)\<rparr>)"

text \<open>
  \<open>checkAndShowSummary\<close> in its two parts, before and after
  \<open>await fetchDaySummary()\<close>. \<open>hour\<close> is \<open>now.getHours()\<close>, the local hour, and
  \<open>today\<close> the UTC date of the same instant.
\<close>

definition checkAndShowSummary :: "string \<Rightarrow> nat \<Rightarrow> HookState \<Rightarrow> HookState" where
  "checkAndShowSummary today hour s =
     (if hour < 20 then s
      else if localStorage s SUMMARY_STORAGE_KEY = Some today then s
      else s\<lparr>pending := pending s @ [AwaitSummary]\<rparr>)"

definition check_fetched :: "DaySummary option \<Rightarrow> HookState \<Rightarrow> HookState" where
  "check_fetched summaryData s =
     (case summaryData of None \<Rightarrow> s | Some d \<Rightarrow> s\<lparr>summary := Some d, showPopup := True\<rparr>)"

definition dismissSummary :: "string \<Rightarrow> HookState \<Rightarrow> HookState" where
  "dismissSummary today s =
     s\<lparr>localStorage := (localStorage s)(SUMMARY_STORAGE_KEY \<mapsto> today,
                                          ALL_SESSIONS_COMPLETE_KEY \<mapsto> today),
       showPopup := False, hasTriggeredRef := True\<rparr>"

text \<open>
  The first lines of the effect clear the flag when the completion marker is not
  today's. The effect goes on to call both triggers and to install the timer and the
  subscription; those calls are events of their own.
\<close>

definition effect_start :: "string \<Rightarrow> HookState \<Rightarrow> HookState" where
  "effect_start today s =
     (if localStorage s ALL_SESSIONS_COMPLETE_KEY \<noteq> Some today
      then s\<lparr>hasTriggeredRef := False\<rparr> else s)"

text \<open>
  A load of the page: fresh React state over the persisted \<open>localStorage\<close>; the
  evaluations pending in the old page are gone.
\<close>

definition reload :: "(string \<rightharpoonup> string) \<Rightarrow> HookState" where
  "reload storage =
     \<lparr>summary = None, showPopup = False, hasTriggeredRef = False, localStorage = storage,
      pending = []\<rparr>"

text \<open>
  What can happen to the hook: a call of the time-of-day trigger (by the effect and by
  the half-hourly timer) with the clock it reads; a call of the all-sessions trigger (by
  the effect and after a completion-record change); the awaited call of the \<open>i\<close>-th
  pending evaluation coming back with its result; the user closing the popup; the effect
  running (on mount, and again when its dependencies change); a reload of the page. The
  manual \<open>showSummaryNow\<close> is not among them.
\<close>

datatype Awaited = AllComplete bool | Summary "DaySummary option"

datatype Event =
  TimeCheck string nat
  | SessionsChanged string
  | Resume nat Awaited
  | Dismiss string
  | EffectRun string
  | Reload

definition without :: "nat \<Rightarrow> 'a list \<Rightarrow> 'a list" where
  "without i xs = take i xs @ drop (Suc i) xs"

definition resume :: "nat \<Rightarrow> Awaited \<Rightarrow> HookState \<Rightarrow> HookState" where
  "resume i r s =
     (if i < length (pending s) then
        (case (pending s ! i, r) of
           (AwaitSummary, Summary summaryData) \<Rightarrow>
             check_fetched summaryData (s\<lparr>pending := without i (pending s)\<rparr>)
         | (AwaitAllComplete today, AllComplete allComplete) \<Rightarrow>
             s\<lparr>pending := without i (pending s) @ trigger_checked today allComplete\<rparr>
         | (AwaitCompleteSummary today, Summary summaryData) \<Rightarrow>
             trigger_fetched today summaryData (s\<lparr>pending := without i (pending s)\<rparr>)
         | _ \<Rightarrow> s)
      else s)"

fun step :: "HookState \<Rightarrow> Event \<Rightarrow> HookState" where
  "step s (TimeCheck today hour) = checkAndShowSummary today hour s"
| "step s (SessionsChanged today) = triggerOnAllSessionsComplete today s"
| "step s (Resume i r) = resume i r s"
| "step s (Dismiss today) = dismissSummary today s"
| "step s (EffectRun today) = effect_start today s"
| "step s Reload = reload (localStorage s)"

text \<open>
  Two ways of counting along a list of events: how often an evaluation reaches
  \<open>setShowPopup(true)\<close>, and how often the popup goes from hidden to visible.
\<close>

definition reaches_show :: "HookState \<Rightarrow> Event \<Rightarrow> bool" where
  "reaches_show s e =
     (case e of
        Resume i (Summary (Some d)) \<Rightarrow>
          i < length (pending s)
          \<and> (case pending s ! i of AwaitAllComplete today \<Rightarrow> False | _ \<Rightarrow> True)
      | _ \<Rightarrow> False)"

fun show_count :: "HookState \<Rightarrow> Event list \<Rightarrow> nat" where
  "show_count s [] = 0"
| "show_count s (e # es) = (if reaches_show s e then 1 else 0) + show_count (step s e) es"

fun appearances :: "HookState \<Rightarrow> Event list \<Rightarrow> nat" where
  "appearances s [] = 0"
| "appearances s (e # es) =
     (if \<not> showPopup s \<and> showPopup (step s e) then 1 else 0) + appearances (step s e) es"

text \<open>
  Conditions on a list of events: every clock reading gives the UTC date \<open>today\<close>; no
  page reload; no dismissal while an evaluation is pending.
\<close>

definition reads_date :: "string \<Rightarrow> Event \<Rightarrow> bool" where
  "reads_date today e =
     (case e of
        TimeCheck t hour \<Rightarrow> t = today
      | SessionsChanged t \<Rightarrow> t = today
      | Dismiss t \<Rightarrow> t = today
      | EffectRun t \<Rightarrow> t = today
      | _ \<Rightarrow> True)"

definition on_date :: "string \<Rightarrow> Event list \<Rightarrow> bool" where
  "on_date today es = list_all (reads_date today) es"

definition single_instance :: "Event list \<Rightarrow> bool" where
  "single_instance es = list_all (\<lambda>e. e \<noteq> Reload) es"

fun settled_dismissals :: "HookState \<Rightarrow> Event list \<Rightarrow> bool" where
  "settled_dismissals s [] = True"
| "settled_dismissals s (e # es) =
     ((case e of Dismiss t \<Rightarrow> pending s = [] | _ \<Rightarrow> True) \<and> settled_dismissals (step s e) es)"

text \<open>The pending evaluations of the all-sessions trigger carry the date \<open>today\<close>.\<close>

definition carries :: "string \<Rightarrow> Pending \<Rightarrow> bool" where
  "carries today p =
     (case p of
        AwaitSummary \<Rightarrow> True
      | AwaitAllComplete t \<Rightarrow> t = today
      | AwaitCompleteSummary t \<Rightarrow> t = today)"

section \<open>The weekly statistics (\<open>useWellbeingStats.ts\<close>)\<close>

text \<open>
  The entries of the result lists are small records; their fields carry a prefix where
  the source reuses a name (\<open>day\<close>, \<open>mood\<close>, \<open>focus\<close>, \<open>studyHours\<close>). A
  \<open>{mood, count}\<close>, \<open>{emotion, percentage}\<close> or \<open>{subject, hours}\<close> entry is a pair.
\<close>

record WeeklyEmotion =
  we_day :: string
  we_focus :: int
  we_stress :: int
  we_mood :: string

record WellbeingStats =
  wellnessScore :: int
  burnoutRisk :: string
  breakEfficiency :: int
  avgFocusLevel :: int
  avgStressLevel :: int
  moodTrends :: "(string \<times> nat) list"
  weeklyEmotions :: "WeeklyEmotion list"
  focusTrend :: "int list"
  stressTrend :: "int list"
  totalBreakTime :: int
  totalStudyTime :: int
  emotionDistribution :: "(string \<times> int) list"

record DailyBreakdown =
  db_day :: string
  db_studyHours :: real
  db_breakHours :: real
  db_sessions :: nat

record EmotionTrend =
  et_day :: string
  et_emotion :: string
  et_focus :: int
  et_stress :: int

record WeeklyAnalytics =
  totalStudyHours :: real
  completionRate :: int
  wa_avgFocusLevel :: int
  wa_avgStressLevel :: int
  breakVsStudyRatio :: int
  dailyBreakdown :: "DailyBreakdown list"
  emotionTrends :: "EmotionTrend list"
  subjectDistribution :: "(string \<times> real) list"

text \<open>The four query results; a failed query leaves \<open>data\<close> null, which is \<open>None\<close>.\<close>

record WeekFetch =
  week_emotions :: "EmotionLog list option"
  week_sessions :: "StudySession list option"
  week_completions :: "Completion list option"
  week_schedule :: "Schedule option"

text \<open>
  \<open>list.filter(e => e.level).map(e => e.level!)\<close>: the levels that are neither null
  nor 0.
\<close>

definition truthy_levels :: "(EmotionLog \<Rightarrow> int option) \<Rightarrow> EmotionLog list \<Rightarrow> int list" where
  "truthy_levels level es =
     List.map_filter (\<lambda>e. case level e of
                             None \<Rightarrow> None
                           | Some n \<Rightarrow> if n = 0 then None else Some n) es"

text \<open>
  \<open>xs.length > 0 ? Math.round(xs.reduce((a, b) => a + b, 0) / xs.length) : 0\<close>, the
  expression used for every average.
\<close>

definition rounded_mean :: "int list \<Rightarrow> int" where
  "rounded_mean xs =
     (if length xs > 0 then Math_round (ddiv (real_of_int (sum_list xs)) (real (length xs)))
      else 0)"

definition dayNames :: "string list" where
  "dayNames = [''Sun'', ''Mon'', ''Tue'', ''Wed'', ''Thu'', ''Fri'', ''Sat'']"

text \<open>\<open>dayNames[d.getDay()] === day\<close>\<close>

definition on_day :: "nat \<Rightarrow> string \<Rightarrow> bool" where
  "on_day n d = (n < length dayNames \<and> dayNames ! n = d)"

text \<open>\<open>xs.slice(-7)\<close>: the last seven elements.\<close>

definition slice_last7 :: "'a list \<Rightarrow> 'a list" where
  "slice_last7 xs = drop (length xs - 7) xs"

text \<open>\<open>e.mood || e.emotion\<close>\<close>

definition mood_or_emotion :: "EmotionLog \<Rightarrow> string" where
  "mood_or_emotion e =
     (case mood e of None \<Rightarrow> emotion e | Some m \<Rightarrow> if m = [] then emotion e else m)"

text \<open>\<open>Math.round(x * 10) / 10\<close>\<close>

definition round1 :: "real \<Rightarrow> real" where
  "round1 x = ddiv (real_of_int (Math_round (dmul x 10))) 10"

text \<open>\<open>Math.round((a / b) * 100)\<close>, the expression used for every percentage.\<close>

definition percentage :: "real \<Rightarrow> real \<Rightarrow> int" where
  "percentage a b = Math_round (dmul (ddiv a b) 100)"

definition weekly_emotion :: "EmotionLog list \<Rightarrow> string \<Rightarrow> WeeklyEmotion" where
  "weekly_emotion emotionsList d =
     (let dayEmotions = filter (\<lambda>e. on_day (logged_day e) d) emotionsList;
          dayFocus = truthy_levels focus_level dayEmotions;
          dayStress = truthy_levels stress_level dayEmotions;
          dominantMood = (if length dayEmotions > 0 then emotion (last dayEmotions)
                          else ''neutral'')
      in \<lparr>we_day = d, we_focus = rounded_mean dayFocus, we_stress = rounded_mean dayStress,
          we_mood = dominantMood\<rparr>)"

text \<open>
  The first half of the \<open>try\<close> block of \<open>fetchStats\<close>, up to \<open>setStats\<close>. The break
  estimate and the break efficiency are written with exact products and quotients: a
  fifth of a whole number of seconds is at least a tenth away from a tie of
  \<open>Math.round\<close>, and for study times below \<open>2^50\<close> seconds the rounding of the doubles
  changes neither integer.
\<close>

definition compute_stats :: "WeekFetch \<Rightarrow> WellbeingStats" where
  "compute_stats f =
     (let emotionsList = or_empty (week_emotions f);
          sessionsList = or_empty (week_sessions f);
          focusLevels = truthy_levels focus_level emotionsList;
          stressLevels = truthy_levels stress_level emotionsList;
          avgFocusLevel = rounded_mean focusLevels;
          avgStressLevel = rounded_mean stressLevels;
          moodCounts = foldl (\<lambda>m e. count_key (mood_or_emotion e) m) [] emotionsList;
          moodTrends = sort_desc snd (entries moodCounts);
          weeklyEmotions = map (weekly_emotion emotionsList) dayNames;
          focusTrend = slice_last7 focusLevels;
          stressTrend = slice_last7 stressLevels;
          totalStudyTime = sum_list (map (\<lambda>s. or_zero (duration_seconds s)) sessionsList);
          totalBreakTime = Math_round (real_of_int totalStudyTime * 0.2);
          emotionCounts = foldl (\<lambda>m e. count_key (emotion e) m) [] emotionsList;
          totalEmotions = (if length emotionsList = 0 then 1 else length emotionsList);
          emotionDistribution =
            sort_desc snd
              (map (\<lambda>(name, count). (name, percentage (real count) (real totalEmotions)))
                   (entries emotionCounts));
          focusContrib = dmul (real_of_int avgFocusLevel) (fl 0.4);
          stressContrib = dmul (100 - real_of_int avgStressLevel) (fl 0.3);
          consistencyContrib = real (min (length emotionsList * 5) 30);
          wellnessScore = Math_round (dadd (dadd focusContrib stressContrib) consistencyContrib);
          burnoutRisk =
            (if avgStressLevel > 70 \<or> totalStudyTime > 25 * 3600 then ''High''
             else if avgStressLevel > 50 \<or> totalStudyTime > 20 * 3600 then ''Medium''
             else ''Low'');
          breakEfficiency =
            (if totalStudyTime > 0
             then min (Math_round (real_of_int totalBreakTime
                                   / (real_of_int totalStudyTime * 0.25) * 100)) 100
             else 0)
      in \<lparr>wellnessScore = wellnessScore, burnoutRisk = burnoutRisk,
          breakEfficiency = breakEfficiency, avgFocusLevel = avgFocusLevel,
          avgStressLevel = avgStressLevel, moodTrends = moodTrends,
          weeklyEmotions = weeklyEmotions, focusTrend = focusTrend,
          stressTrend = stressTrend, totalBreakTime = totalBreakTime,
          totalStudyTime = totalStudyTime, emotionDistribution = emotionDistribution\<rparr>)"

text \<open>The number of sessions planned in the active schedule.\<close>

definition plannedSessions :: "Schedule option \<Rightarrow> nat" where
  "plannedSessions schedule =
     (case schedule of
        None \<Rightarrow> 0
      | Some sch \<Rightarrow>
          (case weekly_plan sch of
             None \<Rightarrow> 0
           | Some weeklyPlan \<Rightarrow>
               foldl (\<lambda>acc d. acc + (case sessions d of None \<Rightarrow> 0 | Some ss \<Rightarrow> length ss))
                     0 weeklyPlan))"

definition daily_breakdown :: "StudySession list \<Rightarrow> string \<Rightarrow> DailyBreakdown" where
  "daily_breakdown sessionsList d =
     (let daySessions = filter (\<lambda>s. on_day (created_day s) d) sessionsList;
          studySeconds = sum_list (map (\<lambda>s. or_zero (duration_seconds s)) daySessions);
          breakSeconds = Math_round (real_of_int studySeconds * 0.2)
      in \<lparr>db_day = d, db_studyHours = round1 (ddiv (real_of_int studySeconds) 3600),
          db_breakHours = round1 (ddiv (real_of_int breakSeconds) 3600),
          db_sessions = length daySessions\<rparr>)"

text \<open>The second half, from \<open>setStats\<close> to \<open>setWeeklyAnalytics\<close>.\<close>

definition compute_analytics :: "WeekFetch \<Rightarrow> WellbeingStats \<Rightarrow> WeeklyAnalytics" where
  "compute_analytics f st =
     (let sessionsList = or_empty (week_sessions f);
          completionsList = or_empty (week_completions f);
          totalStudyHours = ddiv (real_of_int (totalStudyTime st)) 3600;
          planned = plannedSessions (week_schedule f);
          completionRate =
            (if planned > 0
             then percentage (real (length completionsList)) (real planned) else 0);
          dailyBreakdown = map (daily_breakdown sessionsList) dayNames;
          emotionTrends =
            map (\<lambda>we. \<lparr>et_day = we_day we, et_emotion = we_mood we,
                         et_focus = we_focus we, et_stress = we_stress we\<rparr>)
                (weeklyEmotions st);
          subjectHours =
            foldl (\<lambda>m c. add_key (subject c) (ddiv (real_of_int (completion_seconds c)) 3600) m)
                  [] completionsList;
          subjectDistribution =
            sort_desc snd (map (\<lambda>(name, hours). (name, round1 hours)) (entries subjectHours))
      in \<lparr>totalStudyHours = round1 totalStudyHours, completionRate = completionRate,
          wa_avgFocusLevel = avgFocusLevel st, wa_avgStressLevel = avgStressLevel st,
          breakVsStudyRatio =
            (if totalStudyTime st > 0
             then percentage (real_of_int (totalBreakTime st)) (real_of_int (totalStudyTime st))
             else 20),
          dailyBreakdown = dailyBreakdown, emotionTrends = emotionTrends,
          subjectDistribution = subjectDistribution\<rparr>)"

text \<open>
  The state of the hook and \<open>fetchStats\<close> on it: nothing happens without a user;
  otherwise both results are stored and the loading flag is cleared. Failed queries are
  only logged, and on rows of the declared types no expression of the body throws.
\<close>

record StatsHook =
  stats :: WellbeingStats
  weeklyAnalytics :: WeeklyAnalytics
  loading :: bool

definition initial_hook :: StatsHook where
  "initial_hook =
     \<lparr>stats = \<lparr>wellnessScore = 0, burnoutRisk = ''Low'', breakEfficiency = 0,
               avgFocusLevel = 0, avgStressLevel = 0, moodTrends = [], weeklyEmotions = [],
               focusTrend = [], stressTrend = [], totalBreakTime = 0, totalStudyTime = 0,
               emotionDistribution = []\<rparr>,
      weeklyAnalytics = \<lparr>totalStudyHours = 0, completionRate = 0, wa_avgFocusLevel = 0,
               wa_avgStressLevel = 0, breakVsStudyRatio = 0, dailyBreakdown = [],
               emotionTrends = [], subjectDistribution = []\<rparr>,
      loading = True\<rparr>"

definition fetchStats :: "bool \<Rightarrow> WeekFetch \<Rightarrow> StatsHook \<Rightarrow> StatsHook" where
  "fetchStats user f h =
     (if \<not> user then h
      else (let st = compute_stats f
            in h\<lparr>stats := st, weeklyAnalytics := compute_analytics f st, loading := False\<rparr>))"

section \<open>The schedule generator (\<open>generate-schedule/index.ts\<close>)\<close>

text \<open>
  A thrown value is an \<open>Error\<close> with its message, or something that is not an
  \<open>Error\<close>. Where the runtime raises (a body that is not JSON, \<open>map\<close> on something
  that is not an array, a failed connection, a missing property of the reply,
  \<open>JSON.parse\<close>), the thrown value is part of the input.
\<close>

datatype thrown = ErrorObj string | NonError

record Subject =
  name :: string
  hoursPerWeek :: string
  deadline :: "string option"

text \<open>
  The body of the request as \<open>req.json()\<close> delivers it. \<open>subjects\<close> is the array, or
  what \<open>subjects.map\<close> throws when it is none. An absent text field is \<open>None\<close>.
\<close>

record ReqBody =
  subjects :: "thrown + Subject list"
  instituteTimetable :: "string option"
  personalEvents :: "string option"
  startDate :: "string option"
  endDate :: "string option"

record Request =
  req_method :: string
  req_json :: "thrown + ReqBody"

text \<open>
  The gateway's answer: its status, what \<open>response.text()\<close> gives, and the reply text
  \<open>data.choices[0].message.content\<close> (or what \<open>response.json()\<close>, the property
  accesses or \<open>replace\<close> on a value that is not a string throw).
\<close>

record UpstreamResponse =
  up_status :: nat
  up_text :: "thrown + string"
  up_content :: "thrown + string"

definition ok :: "UpstreamResponse \<Rightarrow> bool" where
  "ok response = (200 \<le> up_status response \<and> up_status response \<le> 299)"

text \<open>
  The environment of the function: the configured key, the gateway (the answer to the
  \<open>n\<close>-th request with a given prompt, counted from 0), and \<open>JSON.parse\<close> into some
  type of JSON values.
\<close>

record 'j Env =
  LOVABLE_API_KEY :: "string option"
  fetch :: "nat \<Rightarrow> string \<Rightarrow> thrown + UpstreamResponse"
  JSON_parse :: "string \<Rightarrow> thrown + 'j"

text \<open>
  A response: its status and its body, which is \<open>null\<close>, \<open>JSON.stringify({ error })\<close>
  or \<open>JSON.stringify(schedule)\<close>.
\<close>

datatype 'j Body = NoBody | ErrorBody string | ScheduleBody 'j

record 'j Response =
  resp_status :: nat
  resp_body :: "'j Body"

text \<open>\<open>Array.prototype.join\<close>\<close>

fun join :: "string \<Rightarrow> string list \<Rightarrow> string" where
  "join sep [] = []"
| "join sep [x] = x"
| "join sep (x # y # ys) = x @ sep @ join sep (y # ys)"

text \<open>\<open>value || fallback\<close> on a text field\<close>

definition or_text :: "string option \<Rightarrow> string \<Rightarrow> string" where
  "or_text v fallback = (case v of None \<Rightarrow> fallback | Some s \<Rightarrow> if s = [] then fallback else s)"

definition subject_line :: "Subject \<Rightarrow> string" where
  "subject_line s =
     ''- '' @ name s @ '': '' @ hoursPerWeek s @ '' hours/week''
     @ (case deadline s of
          None \<Rightarrow> []
        | Some d \<Rightarrow> if d = [] then [] else '', Deadline: '' @ d)"

definition build_prompt :: "ReqBody \<Rightarrow> thrown + string" where
  \<open>build_prompt b =
     (case subjects b of
        Inl err \<Rightarrow> Inl err
      | Inr ss \<Rightarrow> Inr (join [CHR 10] [
        ''You are an expert study planner. Create a detailed, personalized study schedule.'',
        '''',
        ''**Student's Subjects:**'',
        join [CHR 10] (map subject_line ss),
        '''',
        ''**Institute Timetable:**'',
        or_text (instituteTimetable b) ''Not provided'',
        '''',
        ''**Personal Events/Activities:**'',
        or_text (personalEvents b) ''None mentioned'',
        '''',
        ''**Schedule Period:** '' @ or_text (startDate b) ''This week'' @ '' to '' @ or_text (endDate b) ''Next week'',
        '''',
        ''Create a realistic, balanced study schedule that:'',
        ''1. Respects institute class timings (avoid conflicts)'',
        ''2. Works around personal events'',
        ''3. Distributes study hours evenly across the week'',
        ''4. Includes breaks and rest periods'',
        ''5. Prioritizes subjects with upcoming deadlines'',
        ''6. Suggests optimal study times based on subject difficulty'',
        '''',
        ''Return the schedule in this JSON format:'',
        ''{'',
        ''  "weeklyPlan": ['',
        ''    {'',
        ''      "day": "Monday",'',
        ''      "sessions": ['',
        ''        {'',
        ''          "time": "9:00 AM - 10:30 AM",'',
        ''          "subject": "Subject name",'',
        ''          "topic": "Suggested topic/activity",'',
        ''          "type": "study/review/practice"'',
        ''        }'',
        ''      ]'',
        ''    }'',
        ''  ],'',
        ''  "totalHours": number,'',
        ''  "tips": ["tip1", "tip2", "tip3"],'',
        ''  "priorities": ["High priority item 1", "High priority item 2"]'',
        ''}'']))\<close>

text \<open>
  \<open>s.replace(/```json\n?/g, '')\<close> and \<open>s.replace(/```\n?/g, '')\<close>: every occurrence
  of the fence, with the line feed after it when there is one, is removed, scanning from
  the left.
\<close>

definition skip_newline :: "string \<Rightarrow> string" where
  "skip_newline s = (case s of [] \<Rightarrow> [] | c # r \<Rightarrow> if c = CHR 10 then r else s)"

function remove_fence :: "string \<Rightarrow> string \<Rightarrow> string" where
  "remove_fence p [] = []"
| "remove_fence p (c # cs) =
     (if p \<noteq> [] \<and> take (length p) (c # cs) = p
      then remove_fence p (skip_newline (drop (length p - 1) cs))
      else c # remove_fence p cs)"
  by pat_completeness auto
termination
proof (relation "measure (\<lambda>(p, s). length s)")
  show "wf (measure (\<lambda>(p, s). length s))" by simp
next
  fix p :: string and c cs
  have "length (skip_newline xs) \<le> length xs" for xs
    by (cases xs) (simp_all add: skip_newline_def)
  from this[of "drop (length p - 1) cs"]
  show "((p, skip_newline (drop (length p - 1) cs)), p, c # cs)
          \<in> measure (\<lambda>(p, s). length s)"
    by simp
next
  fix p :: string and c cs
  show "((p, cs), p, c # cs) \<in> measure (\<lambda>(p, s). length s)" by simp
qed

text \<open>
  \<open>String.prototype.trim\<close> removes white space and line terminators from both ends:
  the characters U+0009 to U+000D, U+0020, U+00A0, U+1680, U+2000 to U+200A, U+2028,
  U+2029, U+202F, U+205F, U+3000 and U+FEFF, here in their UTF-8 bytes.
\<close>

definition white_space :: "string list" where
  "white_space =
     [[CHR 0x09], [CHR 0x0A], [CHR 0x0B], [CHR 0x0C], [CHR 0x0D], [CHR 0x20],
      [CHR 0xC2, CHR 0xA0], [CHR 0xE1, CHR 0x9A, CHR 0x80]]
     @ map (\<lambda>b. [CHR 0xE2, CHR 0x80, b])
         [CHR 0x80, CHR 0x81, CHR 0x82, CHR 0x83, CHR 0x84, CHR 0x85, CHR 0x86, CHR 0x87,
          CHR 0x88, CHR 0x89, CHR 0x8A, CHR 0xA8, CHR 0xA9, CHR 0xAF]
     @ [[CHR 0xE2, CHR 0x81, CHR 0x9F], [CHR 0xE3, CHR 0x80, CHR 0x80],
        [CHR 0xEF, CHR 0xBB, CHR 0xBF]]"

text \<open>
  Removing leading occurrences of the given sequences, at most \<open>n\<close> of them (the length
  of the string is enough).
\<close>

fun strip_leading :: "string list \<Rightarrow> nat \<Rightarrow> string \<Rightarrow> string" where
  "strip_leading ws 0 s = s"
| "strip_leading ws (Suc n) s =
     (case find (\<lambda>w. w \<noteq> [] \<and> take (length w) s = w) ws of
        None \<Rightarrow> s
      | Some w \<Rightarrow> strip_leading ws n (drop (length w) s))"

definition trim :: "string \<Rightarrow> string" where
  "trim s =
     (let t = strip_leading white_space (length s) s
      in rev (strip_leading (map rev white_space) (length t) (rev t)))"

definition strip_fences :: "string \<Rightarrow> string" where
  "strip_fences content = trim (remove_fence ''```'' (remove_fence ''```json'' content))"

definition rate_limit_response :: "'j Response" where
  "rate_limit_response =
     \<lparr>resp_status = 429,
      resp_body = ErrorBody ''Rate limit exceeded. Please try again in a moment.''\<rparr>"

definition payment_required_response :: "'j Response" where
  "payment_required_response =
     \<lparr>resp_status = 402,
      resp_body = ErrorBody ''AI credits exhausted. Please add credits to continue.''\<rparr>"

text \<open>
  The \<open>try\<close> block, in two parts: up to the answer of the gateway, and from there on.
  \<open>Inl\<close> is a thrown value on its way to the \<open>catch\<close>. The gateway is asked once, as
  request 0.
\<close>

definition upstream :: "'j Env \<Rightarrow> Request \<Rightarrow> thrown + UpstreamResponse" where
  "upstream env req =
     (case req_json req of
        Inl err \<Rightarrow> Inl err
      | Inr b \<Rightarrow>
          (case LOVABLE_API_KEY env of
             None \<Rightarrow> Inl (ErrorObj ''LOVABLE_API_KEY is not configured'')
           | Some k \<Rightarrow>
               if k = [] then Inl (ErrorObj ''LOVABLE_API_KEY is not configured'')
               else (case build_prompt b of
                       Inl err \<Rightarrow> Inl err
                     | Inr prompt \<Rightarrow> fetch env 0 prompt)))"

definition after_fetch :: "'j Env \<Rightarrow> UpstreamResponse \<Rightarrow> thrown + 'j Response" where
  "after_fetch env response =
     (if \<not> ok response then
        (if up_status response = 429 then Inr rate_limit_response
         else if up_status response = 402 then Inr payment_required_response
         else (case up_text response of
                 Inl err \<Rightarrow> Inl err
               | Inr errorText \<Rightarrow>
                   Inl (ErrorObj (''AI Gateway error: '' @ nat_to_string (up_status response)))))
      else
        (case up_content response of
           Inl err \<Rightarrow> Inl err
         | Inr scheduleContent \<Rightarrow>
             (case JSON_parse env (strip_fences scheduleContent) of
                Inl err \<Rightarrow> Inl err
              | Inr schedule \<Rightarrow> Inr \<lparr>resp_status = 200, resp_body = ScheduleBody schedule\<rparr>)))"

text \<open>\<open>error instanceof Error ? error.message : '...'\<close>\<close>

definition error_message :: "thrown \<Rightarrow> string" where
  "error_message err =
     (case err of
        ErrorObj m \<Rightarrow> m
      | NonError \<Rightarrow> ''An error occurred generating the schedule'')"

definition handler :: "'j Env \<Rightarrow> Request \<Rightarrow> 'j Response" where
  "handler env req =
     (if req_method req = ''OPTIONS'' then \<lparr>resp_status = 200, resp_body = NoBody\<rparr>
      else (case (case upstream env req of
                    Inl err \<Rightarrow> Inl err
                  | Inr response \<Rightarrow> after_fetch env response) of
              Inl err \<Rightarrow> \<lparr>resp_status = 500, resp_body = ErrorBody (error_message err)\<rparr>
            | Inr resp \<Rightarrow> resp))"

section \<open>The formulas of the specification\<close>





text \<open>
  The specification's wellness score,
  \<open>round(0.4*avgFocus + 0.3*(100-avgStress) + min(emotionCount*5, 30))\<close>, evaluated from
  left to right on doubles.
\<close>

definition spec_wellnessScore :: "int \<Rightarrow> int \<Rightarrow> nat \<Rightarrow> int" where
  "spec_wellnessScore focus stress count =
     Math_round (dadd (dadd (dmul (fl 0.4) (real_of_int focus))
                            (dmul (fl 0.3) (100 - real_of_int stress)))
                      (real (min (count * 5) 30)))"

text \<open>
  The number of sessions planned in the active schedule's weekly plan, as the
  specification words it: all sessions of all days, none without an active schedule.
\<close>

definition spec_planned :: "Schedule option \<Rightarrow> nat" where
  "spec_planned schedule =
     (case schedule of
        None \<Rightarrow> 0
      | Some sch \<Rightarrow>
          length (concat (map (\<lambda>d. or_empty (sessions d)) (or_empty (weekly_plan sch)))))"

section \<open>Auxiliary notions and example inputs\<close>

text \<open>
  Both markers carry the date; and the state in which nothing can show the popup: the
  markers set, the popup hidden, no evaluation pending.
\<close>

definition marked :: "string \<Rightarrow> HookState \<Rightarrow> bool" where
  "marked today s =
     (localStorage s SUMMARY_STORAGE_KEY = Some today
      \<and> localStorage s ALL_SESSIONS_COMPLETE_KEY = Some today)"

definition blocked :: "string \<Rightarrow> HookState \<Rightarrow> bool" where
  "blocked today s = (marked today s \<and> \<not> showPopup s \<and> pending s = [])"

text \<open>A day on which every query comes back empty, and the summary fetched on it.\<close>

definition quiet_day :: DayFetch where
  "quiet_day = \<lparr>sessions_today = None, emotions_today = None, completions_today = None,
                active_schedule = None, todayName = ''Tuesday''\<rparr>"

definition fetched :: Awaited where
  "fetched = Summary (fetchDaySummary True quiet_day)"

text \<open>
  A fresh page whose time-of-day trigger has passed its guards and awaits the summary;
  what may follow a dismissal in that state, a reload included; and the events of one
  mounted instance in which both triggers fire and the popup is dismissed once nothing
  is pending.
\<close>

definition waiting :: HookState where
  "waiting = checkAndShowSummary ''2025-12-09'' 20 (reload Map.empty)"

definition evening :: "Event list" where
  "evening =
     [TimeCheck ''2025-12-09'' 21, SessionsChanged ''2025-12-09'', Resume 0 fetched,
      Reload, EffectRun ''2025-12-09'', TimeCheck ''2025-12-09'' 22, Resume 0 fetched]"

definition one_instance :: "Event list" where
  "one_instance =
     [SessionsChanged ''2025-12-09'', TimeCheck ''2025-12-09'' 20,
      Resume 0 (AllComplete True), Resume 0 fetched, Resume 0 fetched,
      Dismiss ''2025-12-09'', EffectRun ''2025-12-09'', TimeCheck ''2025-12-09'' 21,
      Resume 0 fetched]"

text \<open>A day with one hour of study and one emotion log that rates neither focus nor stress.\<close>

definition unrated_day :: DayFetch where
  "unrated_day =
     \<lparr>sessions_today = Some [\<lparr>duration_seconds = Some 3600, created_day = 2\<rparr>],
      emotions_today = Some [\<lparr>emotion = ''calm'', mood = None, focus_level = None,
                              stress_level = None, logged_day = 2\<rparr>],
      completions_today = Some [],
      active_schedule = None, todayName = ''Tuesday''\<rparr>"



text \<open>Weeks to evaluate the aggregator on: every query failed;\<close>

definition all_failed :: WeekFetch where
  "all_failed = \<lparr>week_emotions = None, week_sessions = None, week_completions = None,
                 week_schedule = None\<rparr>"

text \<open>ten logs of focus 80 and stress 20, one hour of study, one of two sessions done;\<close>

definition log8020 :: EmotionLog where
  "log8020 = \<lparr>emotion = ''focused'', mood = Some ''calm'', focus_level = Some 80,
              stress_level = Some 20, logged_day = 3\<rparr>"

definition steady_week :: WeekFetch where
  "steady_week =
     \<lparr>week_emotions = Some (replicate 10 log8020),
      week_sessions = Some [\<lparr>duration_seconds = Some 3600, created_day = 3\<rparr>],
      week_completions =
        Some [\<lparr>status = ''completed'', subject = ''Math'', completion_seconds = 1800\<rparr>],
      week_schedule =
        Some \<lparr>weekly_plan =
          Some [\<lparr>day = Some ''Monday'',
                 sessions = Some [\<lparr>duration = Some 30\<rparr>, \<lparr>duration = None\<rparr>]\<rparr>]\<rparr>\<rparr>"

text \<open>a single study session of one second;\<close>

definition one_second_week :: WeekFetch where
  "one_second_week =
     \<lparr>week_emotions = Some [],
      week_sessions = Some [\<lparr>duration_seconds = Some 1, created_day = 3\<rparr>],
      week_completions = Some [], week_schedule = None\<rparr>"

text \<open>one completion record against two planned sessions;\<close>

definition half_done_week :: WeekFetch where
  "half_done_week =
     \<lparr>week_emotions = Some [], week_sessions = Some [],
      week_completions =
        Some [\<lparr>status = ''completed'', subject = ''Math'', completion_seconds = 1800\<rparr>],
      week_schedule =
        Some \<lparr>weekly_plan =
          Some [\<lparr>day = Some ''Monday'',
                 sessions = Some [\<lparr>duration = Some 30\<rparr>, \<lparr>duration = None\<rparr>]\<rparr>]\<rparr>\<rparr>"

text \<open>23 completion records against five days of eight planned sessions;\<close>

definition busy_week :: WeekFetch where
  "busy_week =
     \<lparr>week_emotions = Some [], week_sessions = Some [],
      week_completions =
        Some (replicate 23
                \<lparr>status = ''completed'', subject = ''Math'', completion_seconds = 1800\<rparr>),
      week_schedule =
        Some \<lparr>weekly_plan =
          Some (replicate 5
                  \<lparr>day = Some ''Monday'',
                   sessions = Some (replicate 8 \<lparr>duration = Some 30\<rparr>)\<rparr>)\<rparr>\<rparr>"


text \<open>one log of stress 80; and one study session of 21 hours.\<close>

definition tense_week :: WeekFetch where
  "tense_week =
     \<lparr>week_emotions = Some [\<lparr>emotion = ''anxious'', mood = None, focus_level = None,
                              stress_level = Some 80, logged_day = 1\<rparr>],
      week_sessions = Some [], week_completions = Some [], week_schedule = None\<rparr>"

definition long_week :: WeekFetch where
  "long_week =
     \<lparr>week_emotions = Some [],
      week_sessions = Some [\<lparr>duration_seconds = Some 75600, created_day = 4\<rparr>],
      week_completions = Some [], week_schedule = None\<rparr>"

text \<open>
  An environment to evaluate the schedule generator in: a configured key, a gateway that
  gives the same answer to every request, and a parser that accepts the empty object
  only; and a well-formed request.
\<close>

definition toy_parse :: "string \<Rightarrow> thrown + string" where
  "toy_parse s = (if s = ''{}'' then Inr s else Inl (ErrorObj ''Unexpected token in JSON''))"

definition env_answering :: "UpstreamResponse \<Rightarrow> string Env" where
  "env_answering response =
     \<lparr>LOVABLE_API_KEY = Some ''key'', fetch = (\<lambda>n prompt. Inr response),
      JSON_parse = toy_parse\<rparr>"

definition post_request :: Request where
  "post_request =
     \<lparr>req_method = ''POST'',
      req_json =
        Inr \<lparr>subjects = Inr [\<lparr>name = ''Math'', hoursPerWeek = ''5'', deadline = None\<rparr>],
             instituteTimetable = None, personalEvents = None,
             startDate = None, endDate = None\<rparr>\<rparr>"

definition answer :: "nat \<Rightarrow> string \<Rightarrow> UpstreamResponse" where
  "answer code content = \<lparr>up_status = code, up_text = Inr '''', up_content = Inr content\<rparr>"

text \<open>A reply in markdown fences whose content is not JSON.\<close>

definition fenced_reply :: string where
  "fenced_reply = ''```json'' @ [CHR 10] @ ''{broken'' @ [CHR 10] @ ''```''"

section \<open>Properties\<close>

subsection \<open>Rounding\<close>

lemma fl_0: "fl 0 = 0"
  by (simp add: fl_def)


lemma dmul_0: "dmul 0 x = 0"
  by (simp add: dmul_def fl_0)

lemma ddiv_0: "ddiv 0 x = 0"
  by (simp add: ddiv_def fl_0)

lemma Math_round_0: "Math_round 0 = 0"
  by (simp add: Math_round_def)

lemma round1_0: "round1 0 = 0"
  by (simp add: round1_def dmul_0 ddiv_0 Math_round_0)

subsection \<open>The classifier\<close>





lemma keys_differ: "SUMMARY_STORAGE_KEY \<noteq> ALL_SESSIONS_COMPLETE_KEY"
  by (simp add: SUMMARY_STORAGE_KEY_def ALL_SESSIONS_COMPLETE_KEY_def)

lemma length_without: "i < length xs \<Longrightarrow> length (without i xs) = length xs - 1"
  by (simp add: without_def)

lemma carries_without:
  "list_all (carries today) xs \<Longrightarrow> list_all (carries today) (without i xs)"
  by (auto simp: without_def list_all_iff dest: in_set_takeD in_set_dropD)

lemma marked_resume:
  assumes "marked today s" "list_all (carries today) (pending s)"
  shows "marked today (resume i r s)
       \<and> list_all (carries today) (pending (resume i r s))
       \<and> length (pending (resume i r s)) + (if reaches_show s (Resume i r) then 1 else 0)
           \<le> length (pending s)"
proof (cases "i < length (pending s)")
  case False
  with assms show ?thesis by (simp add: resume_def reaches_show_def split: Awaited.splits option.splits)
next
  case True
  then have c: "carries today (pending s ! i)"
    using assms(2) by (simp add: list_all_length)
  show ?thesis
  proof (cases "pending s ! i")
    case AwaitSummary
    with True assms show ?thesis
      by (cases r) (auto simp: resume_def reaches_show_def check_fetched_def marked_def
          carries_without length_without split: option.splits)
  next
    case (AwaitAllComplete t)
    with True assms c show ?thesis
      by (cases r) (auto simp: resume_def reaches_show_def trigger_checked_def marked_def
          carries_without length_without carries_def split: option.splits)
  next
    case (AwaitCompleteSummary t)
    with True assms c show ?thesis
      by (cases r) (auto simp: resume_def reaches_show_def trigger_fetched_def marked_def
          carries_without length_without carries_def keys_differ split: option.splits)
  qed
qed

lemma marked_step:
  assumes "marked today s" "list_all (carries today) (pending s)" "reads_date today e"
  shows "marked today (step s e)
       \<and> list_all (carries today) (pending (step s e))
       \<and> length (pending (step s e)) + (if reaches_show s e then 1 else 0) \<le> length (pending s)"
proof (cases e)
  case (Resume i r)
  with marked_resume[OF assms(1,2)] show ?thesis by simp
qed (use assms in \<open>auto simp: marked_def reads_date_def checkAndShowSummary_def
      triggerOnAllSessionsComplete_def dismissSummary_def effect_start_def reload_def
      reaches_show_def\<close>)

lemma marked_run:
  "marked today s \<Longrightarrow> list_all (carries today) (pending s) \<Longrightarrow> on_date today es \<Longrightarrow>
     show_count s es \<le> length (pending s)"
proof (induction es arbitrary: s)
  case Nil
  then show ?case by simp
next
  case (Cons e es)
  from Cons.prems(3) have e: "reads_date today e" and es: "on_date today es"
    by (simp_all add: on_date_def)
  from marked_step[OF Cons.prems(1,2) e]
  have m: "marked today (step s e)" and c: "list_all (carries today) (pending (step s e))"
    and l: "length (pending (step s e)) + (if reaches_show s e then 1 else 0) \<le> length (pending s)"
    by simp_all
  from Cons.IH[OF m c es] l show ?case by simp
qed

lemma marked_dismiss: "marked today (dismissSummary today s)"
  by (simp add: marked_def dismissSummary_def keys_differ)

lemma blocked_step:
  assumes "blocked today s" "reads_date today e"
  shows "blocked today (step s e)"
  using assms
  by (cases e)
     (auto simp: blocked_def marked_def reads_date_def checkAndShowSummary_def
        triggerOnAllSessionsComplete_def dismissSummary_def effect_start_def reload_def
        resume_def keys_differ)

lemma blocked_run:
  "blocked today s \<Longrightarrow> on_date today es \<Longrightarrow> appearances s es = 0"
proof (induction es arbitrary: s)
  case Nil
  then show ?case by simp
next
  case (Cons e es)
  from Cons.prems(2) have e: "reads_date today e" and es: "on_date today es"
    by (simp_all add: on_date_def)
  from blocked_step[OF Cons.prems(1) e] have b: "blocked today (step s e)" .
  from Cons.IH[OF b es] b show ?case by (simp add: blocked_def)
qed

lemma showPopup_resume: "showPopup s \<Longrightarrow> showPopup (resume i r s)"
  by (auto simp: resume_def check_fetched_def trigger_fetched_def
      split: Pending.splits Awaited.splits option.splits)

lemma visible_step:
  assumes "showPopup s" "e \<noteq> Reload" "reads_date today e"
    "case e of Dismiss t \<Rightarrow> pending s = [] | _ \<Rightarrow> True"
  shows "showPopup (step s e) \<or> blocked today (step s e)"
  using assms
  by (cases e)
     (auto simp: showPopup_resume checkAndShowSummary_def triggerOnAllSessionsComplete_def
        effect_start_def blocked_def marked_def dismissSummary_def reads_date_def keys_differ)

lemma visible_run:
  "showPopup s \<Longrightarrow> single_instance es \<Longrightarrow> on_date today es \<Longrightarrow> settled_dismissals s es \<Longrightarrow>
     appearances s es = 0"
proof (induction es arbitrary: s)
  case Nil
  then show ?case by simp
next
  case (Cons e es)
  from Cons.prems have e: "e \<noteq> Reload" "reads_date today e"
    "case e of Dismiss t \<Rightarrow> pending s = [] | _ \<Rightarrow> True"
    and es: "single_instance es" "on_date today es" "settled_dismissals (step s e) es"
    by (simp_all add: single_instance_def on_date_def)
  from visible_step[OF Cons.prems(1) e]
  show ?case
  proof
    assume "showPopup (step s e)"
    from Cons.IH[OF this es] Cons.prems(1) show ?thesis by simp
  next
    assume "blocked today (step s e)"
    from blocked_run[OF this es(2)] Cons.prems(1) show ?thesis by simp
  qed
qed

lemma appearances_le_1:
  "single_instance es \<Longrightarrow> on_date today es \<Longrightarrow> settled_dismissals s es \<Longrightarrow>
     appearances s es \<le> 1"
proof (induction es arbitrary: s)
  case Nil
  then show ?case by simp
next
  case (Cons e es)
  from Cons.prems have es: "single_instance es" "on_date today es"
    "settled_dismissals (step s e) es"
    by (simp_all add: single_instance_def on_date_def)
  show ?case
  proof (cases "showPopup (step s e)")
    case True
    from visible_run[OF True es] show ?thesis by simp
  next
    case False
    with Cons.IH[OF es] show ?thesis by simp
  qed
qed

lemma quiet_day_summary: "fetchDaySummary True quiet_day \<noteq> None"
  by (simp add: fetchDaySummary_def baseData_def quiet_day_def or_empty_def Let_def)

text \<open>
  C2, as stated: for every sequence of trigger evaluations within one calendar day the
  popup is shown at most once. It fails, in four ways. The time-of-day trigger writes no
  marker when it shows the popup, so a second evaluation after 20:00 reaches
  \<open>setShowPopup(true)\<close> again while the popup is open (first line); an evaluation that
  passed its guard before a dismissal shows the popup after the dismissal, in the same
  mounted instance (second line); after a reload without a dismissal the evaluation on
  mount shows it again (third line); and the markers hold the UTC date while 20:00 is
  local time, so five hours behind UTC a popup dismissed at 18:30, when the UTC date is
  still that of the local day, comes back at 20:00 of the same local day, when the UTC
  date is the next one (fourth line).
\<close>

theorem popup_shown_twice:
  "show_count (reload Map.empty)
     [TimeCheck ''2025-12-09'' 20, Resume 0 fetched,
      TimeCheck ''2025-12-09'' 21, Resume 0 fetched] = 2
   \<and> appearances (reload Map.empty)
     [TimeCheck ''2025-12-09'' 20, Resume 0 fetched,
      TimeCheck ''2025-12-09'' 21, Dismiss ''2025-12-09'', Resume 0 fetched] = 2
   \<and> appearances (reload Map.empty)
     [TimeCheck ''2025-12-09'' 20, Resume 0 fetched,
      Reload, EffectRun ''2025-12-09'', TimeCheck ''2025-12-09'' 20, Resume 0 fetched] = 2
   \<and> appearances (reload Map.empty)
     [SessionsChanged ''2025-12-09'', Resume 0 (AllComplete True), Resume 0 fetched,
      Dismiss ''2025-12-09'', TimeCheck ''2025-12-10'' 20, Resume 0 fetched] = 2"
proof -
  from quiet_day_summary obtain d where d: "fetched = Summary (Some d)"
    by (auto simp: fetched_def)
  show ?thesis
    unfolding d
    by (simp add: reload_def checkAndShowSummary_def triggerOnAllSessionsComplete_def
        resume_def reaches_show_def check_fetched_def trigger_fetched_def trigger_checked_def
        dismissSummary_def effect_start_def without_def keys_differ
        SUMMARY_STORAGE_KEY_def ALL_SESSIONS_COMPLETE_KEY_def)
qed

text \<open>
  C2, amended: take any list of events that read one UTC date: calls of the two triggers,
  awaited calls coming back in any order, effect runs, reloads and dismissals. Once the
  popup has been dismissed on that date, no trigger evaluation that starts later shows
  it; only the evaluations that were past their guard at the dismissal can still reach
  \<open>setShowPopup(true)\<close>, each at most once (they carry that date). And within one
  mounted instance in which no dismissal happens while an evaluation is pending, the
  popup goes from hidden to visible at most once.
\<close>

theorem popup_after_dismissal:
  assumes "on_date today es"
  shows "(list_all (carries today) (pending s) \<longrightarrow>
            show_count (dismissSummary today s) es \<le> length (pending s))
       \<and> (single_instance es \<and> settled_dismissals s es \<longrightarrow> appearances s es \<le> 1)"
proof (intro conjI impI)
  assume c: "list_all (carries today) (pending s)"
  have p: "pending (dismissSummary today s) = pending s"
    by (simp add: dismissSummary_def)
  from marked_run[OF marked_dismiss, of today s es] c assms show
    "show_count (dismissSummary today s) es \<le> length (pending s)"
    by (simp add: p)
next
  assume "single_instance es \<and> settled_dismissals s es"
  with appearances_le_1[of es today s] assms show "appearances s es \<le> 1" by simp
qed

text \<open>
  A dismissal while one evaluation is pending: of all that follows, a reload included,
  only that evaluation shows the popup. And in one mounted instance in which both
  triggers fire and the popup is dismissed with nothing pending, it appears once.
\<close>

theorem popup_after_dismissal_witness:
  "on_date ''2025-12-09'' evening
   \<and> list_all (carries ''2025-12-09'') (pending waiting)
   \<and> length (pending waiting) = 1
   \<and> show_count (dismissSummary ''2025-12-09'' waiting) evening = 1
   \<and> on_date ''2025-12-09'' one_instance
   \<and> single_instance one_instance
   \<and> settled_dismissals (reload Map.empty) one_instance
   \<and> appearances (reload Map.empty) one_instance = 1"
proof -
  from quiet_day_summary obtain d where d: "fetched = Summary (Some d)"
    by (auto simp: fetched_def)
  note defs = reload_def checkAndShowSummary_def triggerOnAllSessionsComplete_def
    resume_def reaches_show_def check_fetched_def trigger_fetched_def trigger_checked_def
    dismissSummary_def effect_start_def without_def keys_differ
    SUMMARY_STORAGE_KEY_def ALL_SESSIONS_COMPLETE_KEY_def
  have a: "on_date ''2025-12-09'' evening"
    by (simp add: evening_def on_date_def reads_date_def)
  have b: "on_date ''2025-12-09'' one_instance"
    by (simp add: one_instance_def on_date_def reads_date_def)
  have c: "list_all (carries ''2025-12-09'') (pending waiting)"
    "length (pending waiting) = 1"
    by (simp_all add: waiting_def reload_def checkAndShowSummary_def carries_def)
  have e: "single_instance one_instance"
    by (simp add: one_instance_def single_instance_def)
  have f: "settled_dismissals (reload Map.empty) one_instance"
    unfolding one_instance_def d by (simp add: defs)
  have lower: "1 \<le> show_count (dismissSummary ''2025-12-09'' waiting) evening"
    "1 \<le> appearances (reload Map.empty) one_instance"
    unfolding one_instance_def evening_def waiting_def d by (simp_all add: defs)
  from popup_after_dismissal[OF a, of waiting] c
  have "show_count (dismissSummary ''2025-12-09'' waiting) evening \<le> 1"
    by simp
  moreover from popup_after_dismissal[OF b, of "reload Map.empty"] e f
  have "appearances (reload Map.empty) one_instance \<le> 1"
    by simp
  ultimately show ?thesis
    using a b c e f lower by simp
qed

subsection \<open>The defaults of the day's averages\<close>

lemma foldl_focus:
  "\<forall>e \<in> set es. focus_level e = None \<or> focus_level e = Some 0 \<Longrightarrow>
   focusCount (foldl emotion_step a es) = focusCount a"
  by (induction es arbitrary: a) (auto simp: emotion_step_def Let_def split: option.splits)

lemma foldl_stress:
  "\<forall>e \<in> set es. stress_level e = None \<or> stress_level e = Some 0 \<Longrightarrow>
   stressCount (foldl emotion_step a es) = stressCount a"
  by (induction es arbitrary: a) (auto simp: emotion_step_def Let_def split: option.splits)

lemma baseData_avgFocus:
  assumes "baseData f = Inr b"
    and "\<forall>e \<in> set (or_empty (emotions_today f)). focus_level e = None \<or> focus_level e = Some 0"
  shows "avgFocus b = 5"
  using assms(1) foldl_focus[OF assms(2)]
  by (auto simp: baseData_def Let_def split: sum.splits option.splits prod.splits)

lemma baseData_avgStress:
  assumes "baseData f = Inr b"
    and "\<forall>e \<in> set (or_empty (emotions_today f)). stress_level e = None \<or> stress_level e = Some 0"
  shows "avgStress b = 3"
  using assms(1) foldl_stress[OF assms(2)]
  by (auto simp: baseData_def Let_def split: sum.splits option.splits prod.splits)

lemma not_motivated: "avgFocus d < 6 \<Longrightarrow> state (generateMessage d) \<noteq> motivated"
  by (simp add: generateMessage_def Let_def)

lemma not_stressed: "avgStress d < 7 \<Longrightarrow> state (generateMessage d) \<noteq> stressed"
  by (simp add: generateMessage_def Let_def)

text \<open>
  C10. When none of the day's emotion logs carries a focus level (the column is null, or
  0, which the truthiness test skips as well), the summary's \<open>avgFocus\<close> is 5, and when
  none carries a stress level its \<open>avgStress\<close> is 3; so the state is then not
  \<open>motivated\<close> (row 3 needs a focus of at least 6), respectively not \<open>stressed\<close> (row 1
  needs a stress of at least 7).
\<close>

theorem fetchDaySummary_defaults:
  assumes "fetchDaySummary user f = Some r"
  shows "((\<forall>e \<in> set (or_empty (emotions_today f)).
             focus_level e = None \<or> focus_level e = Some 0)
            \<longrightarrow> avgFocus r = 5 \<and> state (narrative r) \<noteq> motivated)
       \<and> ((\<forall>e \<in> set (or_empty (emotions_today f)).
             stress_level e = None \<or> stress_level e = Some 0)
            \<longrightarrow> avgStress r = 3 \<and> state (narrative r) \<noteq> stressed)"
proof -
  from assms obtain b where b: "baseData f = Inr b"
    and r: "r = DayData.extend b \<lparr>narrative = generateMessage b\<rparr>"
    by (auto simp: fetchDaySummary_def split: if_splits sum.splits)
  have sel: "avgFocus r = avgFocus b" "avgStress r = avgStress b"
    "narrative r = generateMessage b"
    by (simp_all add: r DayData.defs)
  show ?thesis
    using baseData_avgFocus[OF b] baseData_avgStress[OF b] not_motivated[of b]
      not_stressed[of b]
    by (auto simp: sel)
qed

text \<open>
  On a day with one emotion log that rates neither focus nor stress, the summary has the
  averages 5 and 3 and is neither motivated nor stressed.
\<close>

theorem fetchDaySummary_defaults_witness:
  "fetchDaySummary True unrated_day \<noteq> None
   \<and> avgFocus (the (fetchDaySummary True unrated_day)) = 5
   \<and> state (narrative (the (fetchDaySummary True unrated_day))) \<noteq> motivated
   \<and> avgStress (the (fetchDaySummary True unrated_day)) = 3
   \<and> state (narrative (the (fetchDaySummary True unrated_day))) \<noteq> stressed"
proof -
  have some: "fetchDaySummary True unrated_day \<noteq> None"
    by (simp add: fetchDaySummary_def baseData_def unrated_day_def or_empty_def Let_def)
  then have h: "fetchDaySummary True unrated_day = Some (the (fetchDaySummary True unrated_day))"
    by simp
  have no_levels:
    "\<forall>e \<in> set (or_empty (emotions_today unrated_day)).
       focus_level e = None \<or> focus_level e = Some 0"
    "\<forall>e \<in> set (or_empty (emotions_today unrated_day)).
       stress_level e = None \<or> stress_level e = Some 0"
    by (simp_all add: unrated_day_def or_empty_def)
  from fetchDaySummary_defaults[OF h] no_levels some show ?thesis
    by blast
qed

subsection \<open>The schedule generator\<close>

lemma handler_not_options:
  "req_method req \<noteq> ''OPTIONS'' \<Longrightarrow>
   handler env req =
     (case (case upstream env req of Inl err \<Rightarrow> Inl err | Inr response \<Rightarrow> after_fetch env response) of
        Inl err \<Rightarrow> \<lparr>resp_status = 500, resp_body = ErrorBody (error_message err)\<rparr>
      | Inr resp \<Rightarrow> resp)"
  by (simp add: handler_def)

lemma upstream_fetch_cong:
  "fetch' 0 = fetch env 0 \<Longrightarrow> upstream (env\<lparr>fetch := fetch'\<rparr>) req = upstream env req"
  by (simp add: upstream_def split: sum.splits option.splits)

lemma after_fetch_fetch: "after_fetch (env\<lparr>fetch := fetch'\<rparr>) response = after_fetch env response"
  by (simp add: after_fetch_def split: sum.splits)

text \<open>
  C8. For a request other than \<open>OPTIONS\<close>: when the gateway answers with status 429
  the function responds 429 with the rate-limit message, and when it answers 402 the
  function responds 402 with the credits message; every other failure is answered with
  status 500 and an \<open>{error}\<close> body: an exception before the gateway answers (request
  body, missing key, prompt, connection), any other status that is not a success, an
  unusable reply, and a reply that \<open>JSON.parse\<close> rejects after the markdown fences are
  stripped. The gateway is asked once: the response does not depend on what it would
  answer to a repeated request.
\<close>

theorem handler_error_mapping:
  assumes "req_method req \<noteq> ''OPTIONS''"
  shows "(upstream env req = Inr response \<and> up_status response = 429 \<longrightarrow>
            handler env req =
              \<lparr>resp_status = 429,
               resp_body = ErrorBody ''Rate limit exceeded. Please try again in a moment.''\<rparr>)
       \<and> (upstream env req = Inr response \<and> up_status response = 402 \<longrightarrow>
            handler env req =
              \<lparr>resp_status = 402,
               resp_body = ErrorBody ''AI credits exhausted. Please add credits to continue.''\<rparr>)
       \<and> (upstream env req = Inl err \<longrightarrow>
            handler env req = \<lparr>resp_status = 500, resp_body = ErrorBody (error_message err)\<rparr>)
       \<and> (upstream env req = Inr response \<and> \<not> ok response
            \<and> up_status response \<noteq> 429 \<and> up_status response \<noteq> 402 \<longrightarrow>
            resp_status (handler env req) = 500
            \<and> (\<exists>m. resp_body (handler env req) = ErrorBody m))
       \<and> (upstream env req = Inr response \<and> ok response \<and> up_content response = Inl err \<longrightarrow>
            handler env req = \<lparr>resp_status = 500, resp_body = ErrorBody (error_message err)\<rparr>)
       \<and> (upstream env req = Inr response \<and> ok response \<and> up_content response = Inr content
            \<and> JSON_parse env (strip_fences content) = Inl err \<longrightarrow>
            handler env req = \<lparr>resp_status = 500, resp_body = ErrorBody (error_message err)\<rparr>)
       \<and> (fetch' 0 = fetch env 0 \<longrightarrow> handler (env\<lparr>fetch := fetch'\<rparr>) req = handler env req)"
proof (intro conjI impI)
  assume "upstream env req = Inr response \<and> up_status response = 429"
  then show "handler env req =
              \<lparr>resp_status = 429,
               resp_body = ErrorBody ''Rate limit exceeded. Please try again in a moment.''\<rparr>"
    by (simp add: handler_not_options[OF assms] after_fetch_def ok_def rate_limit_response_def)
next
  assume "upstream env req = Inr response \<and> up_status response = 402"
  then show "handler env req =
              \<lparr>resp_status = 402,
               resp_body = ErrorBody ''AI credits exhausted. Please add credits to continue.''\<rparr>"
    by (simp add: handler_not_options[OF assms] after_fetch_def ok_def payment_required_response_def)
next
  assume "upstream env req = Inl err"
  then show "handler env req = \<lparr>resp_status = 500, resp_body = ErrorBody (error_message err)\<rparr>"
    by (simp add: handler_not_options[OF assms])
next
  assume a: "upstream env req = Inr response \<and> \<not> ok response
            \<and> up_status response \<noteq> 429 \<and> up_status response \<noteq> 402"
  then show "resp_status (handler env req) = 500"
    by (simp add: handler_not_options[OF assms] after_fetch_def split: sum.splits)
  from a show "\<exists>m. resp_body (handler env req) = ErrorBody m"
    by (simp add: handler_not_options[OF assms] after_fetch_def split: sum.splits)
next
  assume "upstream env req = Inr response \<and> ok response \<and> up_content response = Inl err"
  then show "handler env req = \<lparr>resp_status = 500, resp_body = ErrorBody (error_message err)\<rparr>"
    by (simp add: handler_not_options[OF assms] after_fetch_def)
next
  assume "upstream env req = Inr response \<and> ok response \<and> up_content response = Inr content
            \<and> JSON_parse env (strip_fences content) = Inl err"
  then show "handler env req = \<lparr>resp_status = 500, resp_body = ErrorBody (error_message err)\<rparr>"
    by (simp add: handler_not_options[OF assms] after_fetch_def)
next
  assume "fetch' 0 = fetch env 0"
  then show "handler (env\<lparr>fetch := fetch'\<rparr>) req = handler env req"
    by (simp add: handler_def upstream_fetch_cong after_fetch_fetch split: sum.splits)
qed

lemma upstream_answering:
  "upstream (env_answering response) post_request = Inr response"
  by (simp add: upstream_def env_answering_def post_request_def build_prompt_def)

theorem handler_error_mapping_witness:
  "handler (env_answering (answer 429 '''')) post_request =
     \<lparr>resp_status = 429,
      resp_body = ErrorBody ''Rate limit exceeded. Please try again in a moment.''\<rparr>
   \<and> handler (env_answering (answer 402 '''')) post_request =
     \<lparr>resp_status = 402,
      resp_body = ErrorBody ''AI credits exhausted. Please add credits to continue.''\<rparr>
   \<and> resp_status (handler (env_answering (answer 503 '''')) post_request) = 500
   \<and> handler (env_answering (answer 200 fenced_reply)) post_request =
     \<lparr>resp_status = 500, resp_body = ErrorBody ''Unexpected token in JSON''\<rparr>"
proof -
  have m: "req_method post_request \<noteq> ''OPTIONS''"
    by (simp add: post_request_def)
  have s: "strip_fences fenced_reply = ''{broken''"
    by code_simp
  have p: "JSON_parse (env_answering r) (strip_fences fenced_reply)
           = Inl (ErrorObj ''Unexpected token in JSON'')" for r
    unfolding s by (simp add: env_answering_def toy_parse_def)
  from handler_error_mapping[OF m, where env = "env_answering (answer 429 '''')"
      and response = "answer 429 ''''"]
    handler_error_mapping[OF m, where env = "env_answering (answer 402 '''')"
      and response = "answer 402 ''''"]
    handler_error_mapping[OF m, where env = "env_answering (answer 503 '''')"
      and response = "answer 503 ''''"]
    handler_error_mapping[OF m,
      where env = "env_answering (answer 200 fenced_reply)"
      and response = "answer 200 fenced_reply"
      and content = "fenced_reply"
      and err = "ErrorObj ''Unexpected token in JSON''"]
    p
  show ?thesis
    by (simp add: upstream_answering answer_def ok_def error_message_def)
qed

subsection \<open>The weekly aggregator\<close>

lemma stats_fetchStats: "stats (fetchStats True f h) = compute_stats f"
  by (simp add: fetchStats_def Let_def)

lemma analytics_fetchStats:
  "weeklyAnalytics (fetchStats True f h) = compute_analytics f (compute_stats f)"
  by (simp add: fetchStats_def Let_def)

lemma entries_Nil: "entries [] = []"
  by (simp add: entries_def)

lemma sort_desc_Nil: "sort_desc v [] = []"
  by (simp add: sort_desc_def)

text \<open>The fields of the statistics in terms of the rows.\<close>

lemma avg_stats:
  "avgFocusLevel (compute_stats f)
     = rounded_mean (truthy_levels focus_level (or_empty (week_emotions f)))"
  "avgStressLevel (compute_stats f)
     = rounded_mean (truthy_levels stress_level (or_empty (week_emotions f)))"
  "totalStudyTime (compute_stats f)
     = sum_list (map (\<lambda>s. or_zero (duration_seconds s)) (or_empty (week_sessions f)))"
  by (simp_all add: compute_stats_def Let_def)

lemma score_stats:
  "wellnessScore (compute_stats f)
     = spec_wellnessScore (avgFocusLevel (compute_stats f)) (avgStressLevel (compute_stats f))
         (length (or_empty (week_emotions f)))"
  by (simp add: compute_stats_def Let_def spec_wellnessScore_def dmul_def mult.commute)

lemma risk_stats:
  "burnoutRisk (compute_stats f) =
     (if avgStressLevel (compute_stats f) > 70
         \<or> totalStudyTime (compute_stats f) > 25 * 3600 then ''High''
      else if avgStressLevel (compute_stats f) > 50
         \<or> totalStudyTime (compute_stats f) > 20 * 3600 then ''Medium'' else ''Low'')"
  by (simp add: compute_stats_def Let_def)

lemma break_stats:
  "totalBreakTime (compute_stats f)
     = Math_round (0.2 * real_of_int (totalStudyTime (compute_stats f)))"
  "breakEfficiency (compute_stats f) =
     (if totalStudyTime (compute_stats f) > 0
      then min (Math_round (real_of_int (totalBreakTime (compute_stats f))
                  / (real_of_int (totalStudyTime (compute_stats f)) * 0.25) * 100)) 100
      else 0)"
  by (simp_all add: compute_stats_def Let_def mult.commute)

lemma lists_stats:
  "moodTrends (compute_stats f)
     = sort_desc snd (entries (foldl (\<lambda>m e. count_key (mood_or_emotion e) m) []
                                     (or_empty (week_emotions f))))"
  "weeklyEmotions (compute_stats f)
     = map (weekly_emotion (or_empty (week_emotions f))) dayNames"
  "focusTrend (compute_stats f)
     = slice_last7 (truthy_levels focus_level (or_empty (week_emotions f)))"
  "stressTrend (compute_stats f)
     = slice_last7 (truthy_levels stress_level (or_empty (week_emotions f)))"
  by (simp_all add: compute_stats_def Let_def)

lemma distribution_empty:
  "or_empty (week_emotions f) = [] \<Longrightarrow> emotionDistribution (compute_stats f) = []"
  by (simp add: compute_stats_def Let_def entries_Nil sort_desc_Nil)

lemma score_0_0_0: "spec_wellnessScore 0 0 0 = 30"
  by code_simp



lemma empty_stats:
  assumes "or_empty (week_emotions f) = []" "or_empty (week_sessions f) = []"
  shows "compute_stats f =
     \<lparr>wellnessScore = 30, burnoutRisk = ''Low'', breakEfficiency = 0,
      avgFocusLevel = 0, avgStressLevel = 0, moodTrends = [],
      weeklyEmotions =
        map (\<lambda>d. \<lparr>we_day = d, we_focus = 0, we_stress = 0, we_mood = ''neutral''\<rparr>) dayNames,
      focusTrend = [], stressTrend = [], totalBreakTime = 0, totalStudyTime = 0,
      emotionDistribution = []\<rparr>"
proof -
  have a: "avgFocusLevel (compute_stats f) = 0" "avgStressLevel (compute_stats f) = 0"
    "totalStudyTime (compute_stats f) = 0"
    by (simp_all add: avg_stats assms truthy_levels_def rounded_mean_def List.map_filter_simps)
  have w: "wellnessScore (compute_stats f) = 30"
    by (simp add: score_stats a assms score_0_0_0)
  have r: "burnoutRisk (compute_stats f) = ''Low''"
    by (simp add: risk_stats a)
  have b: "totalBreakTime (compute_stats f) = 0" "breakEfficiency (compute_stats f) = 0"
    by (simp_all add: break_stats a Math_round_def)
  have l: "moodTrends (compute_stats f) = []" "focusTrend (compute_stats f) = []"
    "stressTrend (compute_stats f) = []"
    "weeklyEmotions (compute_stats f) =
       map (\<lambda>d. \<lparr>we_day = d, we_focus = 0, we_stress = 0, we_mood = ''neutral''\<rparr>) dayNames"
    by (simp_all add: lists_stats assms entries_Nil sort_desc_Nil truthy_levels_def
        slice_last7_def weekly_emotion_def rounded_mean_def List.map_filter_simps Let_def)
  have m: "WellbeingStats.more (compute_stats f) = ()"
    by simp
  show ?thesis
    by (rule WellbeingStats.equality) (simp_all add: a w r b l distribution_empty assms)
qed

lemma empty_analytics:
  assumes "or_empty (week_emotions f) = []" "or_empty (week_sessions f) = []"
    "or_empty (week_completions f) = []" "week_schedule f = None"
  shows "compute_analytics f (compute_stats f) =
     \<lparr>totalStudyHours = 0, completionRate = 0, wa_avgFocusLevel = 0,
      wa_avgStressLevel = 0, breakVsStudyRatio = 20,
      dailyBreakdown =
        map (\<lambda>d. \<lparr>db_day = d, db_studyHours = 0, db_breakHours = 0, db_sessions = 0\<rparr>)
            dayNames,
      emotionTrends =
        map (\<lambda>d. \<lparr>et_day = d, et_emotion = ''neutral'', et_focus = 0, et_stress = 0\<rparr>)
            dayNames,
      subjectDistribution = []\<rparr>"
  unfolding empty_stats[OF assms(1,2)]
  by (simp add: compute_analytics_def assms plannedSessions_def round1_0 ddiv_0 Math_round_0
      daily_breakdown_def entries_Nil sort_desc_Nil Let_def comp_def)

text \<open>
  C3, as stated: on an empty weekly window (every query empty or failed, no active
  schedule) the aggregator produces all-zero defaults, in particular a wellness score
  of 0. It fails: the stress term of the score is \<open>0.3 * (100 - 0)\<close>, so the score is 30.
\<close>

theorem empty_window_score_30:
  "wellnessScore (stats (fetchStats True all_failed initial_hook)) = 30"
  by (simp add: fetchStats_def Let_def empty_stats all_failed_def or_empty_def)

text \<open>
  C3, amended: when the weekly window is empty (no emotion logs, no sessions, no
  completions, no active schedule, each query empty or failed) the aggregator returns
  normally, clears the loading flag and produces burnout risk "Low", average focus and
  stress 0, break efficiency 0, zero study and break time, empty mood, focus, stress and
  distribution lists, and a completion rate of 0; the wellness score is 30, the break to
  study ratio is 20, and the per-day lists hold one zero entry (mood "neutral") for each
  of the seven day names.
\<close>

theorem fetchStats_empty_window:
  assumes "or_empty (week_emotions f) = []" "or_empty (week_sessions f) = []"
    "or_empty (week_completions f) = []" "week_schedule f = None"
  shows "stats (fetchStats True f h) =
           \<lparr>wellnessScore = 30, burnoutRisk = ''Low'', breakEfficiency = 0,
            avgFocusLevel = 0, avgStressLevel = 0, moodTrends = [],
            weeklyEmotions =
              map (\<lambda>d. \<lparr>we_day = d, we_focus = 0, we_stress = 0, we_mood = ''neutral''\<rparr>)
                  dayNames,
            focusTrend = [], stressTrend = [], totalBreakTime = 0, totalStudyTime = 0,
            emotionDistribution = []\<rparr>
       \<and> weeklyAnalytics (fetchStats True f h) =
           \<lparr>totalStudyHours = 0, completionRate = 0, wa_avgFocusLevel = 0,
            wa_avgStressLevel = 0, breakVsStudyRatio = 20,
            dailyBreakdown =
              map (\<lambda>d. \<lparr>db_day = d, db_studyHours = 0, db_breakHours = 0, db_sessions = 0\<rparr>)
                  dayNames,
            emotionTrends =
              map (\<lambda>d. \<lparr>et_day = d, et_emotion = ''neutral'', et_focus = 0, et_stress = 0\<rparr>)
                  dayNames,
            subjectDistribution = []\<rparr>
       \<and> loading (fetchStats True f h) = False"
  using empty_stats[OF assms(1,2)] empty_analytics[OF assms]
  by (simp add: fetchStats_def Let_def)

theorem fetchStats_empty_window_witness:
  "wellnessScore (stats (fetchStats True all_failed initial_hook)) = 30
   \<and> burnoutRisk (stats (fetchStats True all_failed initial_hook)) = ''Low''
   \<and> completionRate (weeklyAnalytics (fetchStats True all_failed initial_hook)) = 0
   \<and> \<not> loading (fetchStats True all_failed initial_hook)"
proof -
  have h: "or_empty (week_emotions all_failed) = []"
    "or_empty (week_sessions all_failed) = []"
    "or_empty (week_completions all_failed) = []" "week_schedule all_failed = None"
    by (simp_all add: all_failed_def or_empty_def)
  from fetchStats_empty_window[OF h, of initial_hook] show ?thesis by simp
qed

lemma steady_week_stats:
  "avgFocusLevel (compute_stats steady_week) = 80"
  "avgStressLevel (compute_stats steady_week) = 20"
  "length (or_empty (week_emotions steady_week)) = 10"
  "totalStudyTime (compute_stats steady_week) = 3600"
  unfolding avg_stats by code_simp+




lemma tense_week_stats:
  "rounded_mean (truthy_levels stress_level (or_empty (week_emotions tense_week))) = 80"
  "sum_list (map (\<lambda>s. or_zero (duration_seconds s)) (or_empty (week_sessions tense_week))) = 0"
  by code_simp+

lemma long_week_stats:
  "rounded_mean (truthy_levels stress_level (or_empty (week_emotions long_week))) = 0"
  "sum_list (map (\<lambda>s. or_zero (duration_seconds s)) (or_empty (week_sessions long_week)))
     = 75600"
  by code_simp+

text \<open>
  C5. For every weekly window, with the average stress being the rounded mean of the
  week's stress levels and the study time the sum of the week's session durations, the
  burnout risk is "High" if the average stress exceeds 70 or the study time exceeds 25
  hours, else "Medium" if the average stress exceeds 50 or the study time exceeds 20
  hours, else "Low"; it is "Medium" exactly when neither High condition holds and the
  average stress exceeds 50 or the study time exceeds 72000 seconds.
\<close>

theorem burnoutRisk_rule:
  "let a = rounded_mean (truthy_levels stress_level (or_empty (week_emotions f)));
       t = sum_list (map (\<lambda>s. or_zero (duration_seconds s)) (or_empty (week_sessions f)));
       st = stats (fetchStats True f h)
   in avgStressLevel st = a \<and> totalStudyTime st = t
      \<and> burnoutRisk st =
          (if a > 70 \<or> t > 25 * 3600 then ''High''
           else if a > 50 \<or> t > 20 * 3600 then ''Medium'' else ''Low'')
      \<and> (burnoutRisk st = ''Medium'')
          = (\<not> (a > 70 \<or> t > 25 * 3600) \<and> (a > 50 \<or> t > 72000))"
  unfolding Let_def stats_fetchStats
  by (subst risk_stats, subst risk_stats) (auto simp: avg_stats)

text \<open>
  A week with a stress level of 80 is at high risk, a week with 21 hours of study at
  medium risk, and the week with stress 20 and one hour of study at low risk.
\<close>

theorem burnoutRisk_rule_witness:
  "burnoutRisk (stats (fetchStats True tense_week initial_hook)) = ''High''
   \<and> burnoutRisk (stats (fetchStats True long_week initial_hook)) = ''Medium''
   \<and> burnoutRisk (stats (fetchStats True steady_week initial_hook)) = ''Low''"
  using burnoutRisk_rule[of tense_week initial_hook] burnoutRisk_rule[of long_week initial_hook]
    burnoutRisk_rule[of steady_week initial_hook]
    tense_week_stats long_week_stats steady_week_stats(2,4)
  by (simp add: Let_def stats_fetchStats avg_stats)

lemma eff_mult5:
  fixes t :: int
  assumes "t > 0" "5 dvd t"
  shows "min (Math_round (real_of_int (Math_round (0.2 * real_of_int t))
                          / (real_of_int t * 0.25) * 100)) 100 = 80"
proof -
  from assms obtain k where k: "t = 5 * k" by (auto simp: dvd_def)
  with assms have kpos: "k > 0" by simp
  have b: "Math_round (0.2 * real_of_int t) = k"
    by (simp add: k Math_round_def)
  have "real_of_int k / (real_of_int t * 0.25) * 100 = 80"
    using kpos by (simp add: k field_simps)
  then show ?thesis
    unfolding b by (simp add: Math_round_def)
qed

lemma eff_large:
  fixes t :: int
  assumes "t > 400"
  shows "min (Math_round (real_of_int (Math_round (0.2 * real_of_int t))
                          / (real_of_int t * 0.25) * 100)) 100 = 80"
proof -
  define B where "B = Math_round (0.2 * real_of_int t)"
  have tpos: "real_of_int t > 0" using assms by simp
  have B1: "real_of_int B \<le> 0.2 * real_of_int t + 1/2"
    unfolding B_def Math_round_def by linarith
  have B2: "real_of_int B > 0.2 * real_of_int t - 1/2"
    unfolding B_def Math_round_def by linarith
  define x where "x = real_of_int B / (real_of_int t * 0.25) * 100"
  have xeq: "x = 400 * real_of_int B / real_of_int t"
    using tpos by (simp add: x_def field_simps)
  have t400: "real_of_int t > 400" using assms by simp
  have up: "x < 80 + 1/2"
  proof -
    have "400 * real_of_int B \<le> 80 * real_of_int t + 200" using B1 by simp
    also have "\<dots> < (80 + 1/2) * real_of_int t" using t400 by (simp add: algebra_simps)
    finally show ?thesis using tpos by (simp add: xeq field_simps)
  qed
  have lo: "x > 80 - 1/2"
  proof -
    have "(80 - 1/2) * real_of_int t < 80 * real_of_int t - 200"
      using t400 by (simp add: algebra_simps)
    also have "\<dots> < 400 * real_of_int B" using B2 by simp
    finally show ?thesis using tpos by (simp add: xeq field_simps)
  qed
  have "Math_round x = 80"
    unfolding Math_round_def using up lo by linarith
  then show ?thesis
    unfolding B_def[symmetric] x_def[symmetric] by simp
qed

lemma one_second_stats: "totalStudyTime (compute_stats one_second_week) = 1"
  by (simp add: compute_stats_def one_second_week_def or_empty_def or_zero_def Let_def)

text \<open>
  C6, as stated: the estimated break time is always 0.2 of the study time, so that the
  break efficiency is 80 for every positive study time. It fails: the estimate is
  rounded to whole seconds first, and a week with one second of study has a break
  estimate of 0 and a break efficiency of 0.
\<close>

theorem breakEfficiency_not_80:
  "totalStudyTime (stats (fetchStats True one_second_week initial_hook)) = 1
   \<and> breakEfficiency (stats (fetchStats True one_second_week initial_hook)) = 0"
  unfolding stats_fetchStats
  using break_stats[of one_second_week] one_second_stats
  by (simp add: Math_round_def)

text \<open>
  C6, amended: the estimated break time is \<open>round(0.2 * totalStudySeconds)\<close>; for a
  positive study time the break efficiency is
  \<open>min(round(estimatedBreakSeconds / (totalStudySeconds * 0.25) * 100), 100)\<close>, and it is 0
  for a study time of 0; the result is 80 whenever the study time is a positive multiple
  of 5 seconds or more than 400 seconds.
\<close>

theorem breakEfficiency_rule:
  "let st = stats (fetchStats True f h); t = totalStudyTime st in
     totalBreakTime st = Math_round (0.2 * real_of_int t)
     \<and> (t > 0 \<longrightarrow> breakEfficiency st =
           min (Math_round (real_of_int (totalBreakTime st) / (real_of_int t * 0.25) * 100)) 100)
     \<and> (t \<le> 0 \<longrightarrow> breakEfficiency st = 0)
     \<and> (t > 0 \<and> 5 dvd t \<longrightarrow> breakEfficiency st = 80)
     \<and> (t > 400 \<longrightarrow> breakEfficiency st = 80)"
  unfolding Let_def stats_fetchStats
  using break_stats[of f] eff_mult5[of "totalStudyTime (compute_stats f)"]
    eff_large[of "totalStudyTime (compute_stats f)"]
  by auto

theorem breakEfficiency_rule_witness:
  "totalStudyTime (stats (fetchStats True steady_week initial_hook)) = 3600
   \<and> breakEfficiency (stats (fetchStats True steady_week initial_hook)) = 80
   \<and> totalBreakTime (stats (fetchStats True steady_week initial_hook)) = 720
   \<and> totalStudyTime (stats (fetchStats True all_failed initial_hook)) = 0
   \<and> breakEfficiency (stats (fetchStats True all_failed initial_hook)) = 0"
proof -
  have a: "totalStudyTime (compute_stats all_failed) = 0"
    by (simp add: compute_stats_def all_failed_def or_empty_def Let_def)
  show ?thesis
    using breakEfficiency_rule[of steady_week initial_hook]
      breakEfficiency_rule[of all_failed initial_hook] steady_week_stats(4) a
    by (simp add: Let_def stats_fetchStats Math_round_def)
qed

lemma foldl_planned:
  "foldl (\<lambda>acc d. acc + (case sessions d of None \<Rightarrow> 0 | Some ss \<Rightarrow> length ss)) a wp
   = a + length (concat (map (\<lambda>d. or_empty (sessions d)) wp))"
  by (induction wp arbitrary: a) (auto simp: or_empty_def split: option.splits)

lemma plannedSessions_spec: "plannedSessions sch = spec_planned sch"
  by (simp add: plannedSessions_def spec_planned_def foldl_planned or_empty_def
      split: option.splits)

lemma percentage_1_2: "percentage 1 2 = 50"
  by code_simp

lemma percentage_23_40: "percentage 23 40 = 57"
  by code_simp

lemma planned_examples:
  "spec_planned (week_schedule half_done_week) = 2"
  "length (or_empty (week_completions half_done_week)) = 1"
  "spec_planned (week_schedule busy_week) = 40"
  "length (or_empty (week_completions busy_week)) = 23"
  "spec_planned (week_schedule all_failed) = 0"
  by code_simp+

text \<open>
  C7, as stated: the completion rate equals the number of completion records divided by
  the number of planned sessions. It fails: the code stores the rounded percentage, so
  one completion against two planned sessions gives 50, not one half.
\<close>

theorem completionRate_is_percent:
  "length (or_empty (week_completions half_done_week)) = 1
   \<and> spec_planned (week_schedule half_done_week) = 2
   \<and> completionRate (weeklyAnalytics (fetchStats True half_done_week initial_hook)) = 50"
  using planned_examples(1,2) percentage_1_2
  by (simp add: analytics_fetchStats compute_analytics_def plannedSessions_spec Let_def)

text \<open>
  C7, amended: for every list of completion records and active schedule, the completion
  rate is the percentage \<open>round(completions / planned * 100)\<close>, the quotient and the product
  being rounded to doubles, where \<open>planned\<close> is the number of sessions in the active
  schedule's weekly plan, and it is 0 when no sessions are planned, in particular when no
  schedule is active.
\<close>

theorem completionRate_rule:
  "let n = length (or_empty (week_completions f)); p = spec_planned (week_schedule f) in
     completionRate (weeklyAnalytics (fetchStats True f h)) =
       (if p > 0 then Math_round (dmul (ddiv (real n) (real p)) 100) else 0)
     \<and> (p = 0 \<longrightarrow> completionRate (weeklyAnalytics (fetchStats True f h)) = 0)
     \<and> (week_schedule f = None \<longrightarrow> p = 0)"
  unfolding Let_def analytics_fetchStats
  by (simp add: compute_analytics_def Let_def plannedSessions_spec spec_planned_def
      percentage_def)

text \<open>
  With no schedule the rate is 0; with 23 completions against 40 planned sessions it is
  57, the double product being just below 57.5.
\<close>

theorem completionRate_rule_witness:
  "spec_planned (week_schedule all_failed) = 0
   \<and> completionRate (weeklyAnalytics (fetchStats True all_failed initial_hook)) = 0
   \<and> spec_planned (week_schedule busy_week) = 40
   \<and> length (or_empty (week_completions busy_week)) = 23
   \<and> completionRate (weeklyAnalytics (fetchStats True busy_week initial_hook)) = 57"
  using completionRate_rule[of all_failed initial_hook]
    completionRate_rule[of busy_week initial_hook] planned_examples(3,4,5) percentage_23_40
  by (simp add: Let_def percentage_def)

end
